theory Spec2Isabelle
  imports Complex_Main "HOL-Library.Word"
begin

unbundle bit_operations_syntax

section \<open>quatosTool: frame mass properties and mixer synthesis\<close>

text \<open>
  A shallow embedding of \<^verbatim>\<open>quatosTool.cc\<close>. The program reads a frame description,
  resolves the motor geometry, computes total mass, centre of gravity and inertia tensor
  (\<^verbatim>\<open>quatosToolObjCalc\<close>), synthesises the mixing matrices (\<^verbatim>\<open>quatosToolCalc\<close>) and
  prints them together with a packed port order (\<^verbatim>\<open>main\<close>).

  Parsing, option handling and printing are not modelled: the model starts from the
  global record \<^verbatim>\<open>quatosData\<close> as the XML reader leaves it.
\<close>

section \<open>Doubles\<close>

text \<open>
  The program computes in IEEE doubles. The model keeps the special values and drops the
  rounding: a finite double is the real number it stands for, arithmetic on finite values
  is exact and never overflows, and the two zeros are one. What the model keeps is what
  decides the claims about degenerate input: \<open>0 / 0\<close> is \<open>NaN\<close>, a nonzero value over
  zero is an infinity, \<open>NaN\<close> absorbs every operation, and a comparison with \<open>NaN\<close> is
  false. A quotient by zero takes the zero as positive.
\<close>

datatype dbl = Fin real | PInf | NInf | NaN

instantiation dbl :: "{zero, one, plus, uminus, minus, times, inverse, abs}"
begin

definition zero_dbl :: dbl where
  "zero_dbl = Fin 0"

definition one_dbl :: dbl where
  "one_dbl = Fin 1"

fun plus_dbl :: "dbl \<Rightarrow> dbl \<Rightarrow> dbl" where
  "plus_dbl NaN _ = NaN"
| "plus_dbl _ NaN = NaN"
| "plus_dbl PInf NInf = NaN"
| "plus_dbl NInf PInf = NaN"
| "plus_dbl PInf _ = PInf"
| "plus_dbl _ PInf = PInf"
| "plus_dbl NInf _ = NInf"
| "plus_dbl _ NInf = NInf"
| "plus_dbl (Fin a) (Fin b) = Fin (a + b)"

fun uminus_dbl :: "dbl \<Rightarrow> dbl" where
  "uminus_dbl (Fin a) = Fin (- a)"
| "uminus_dbl PInf = NInf"
| "uminus_dbl NInf = PInf"
| "uminus_dbl NaN = NaN"

definition minus_dbl :: "dbl \<Rightarrow> dbl \<Rightarrow> dbl" where
  "minus_dbl a b = a + (- b)"

fun times_dbl :: "dbl \<Rightarrow> dbl \<Rightarrow> dbl" where
  "times_dbl NaN _ = NaN"
| "times_dbl _ NaN = NaN"
| "times_dbl (Fin a) (Fin b) = Fin (a * b)"
| "times_dbl (Fin a) PInf = (if a = 0 then NaN else if 0 < a then PInf else NInf)"
| "times_dbl (Fin a) NInf = (if a = 0 then NaN else if 0 < a then NInf else PInf)"
| "times_dbl PInf (Fin b) = (if b = 0 then NaN else if 0 < b then PInf else NInf)"
| "times_dbl NInf (Fin b) = (if b = 0 then NaN else if 0 < b then NInf else PInf)"
| "times_dbl PInf PInf = PInf"
| "times_dbl NInf NInf = PInf"
| "times_dbl PInf NInf = NInf"
| "times_dbl NInf PInf = NInf"

fun divide_dbl :: "dbl \<Rightarrow> dbl \<Rightarrow> dbl" where
  "divide_dbl NaN _ = NaN"
| "divide_dbl _ NaN = NaN"
| "divide_dbl (Fin a) (Fin b) =
     (if b \<noteq> 0 then Fin (a / b) else if a = 0 then NaN else if 0 < a then PInf else NInf)"
| "divide_dbl (Fin a) PInf = Fin 0"
| "divide_dbl (Fin a) NInf = Fin 0"
| "divide_dbl PInf (Fin b) = (if 0 \<le> b then PInf else NInf)"
| "divide_dbl NInf (Fin b) = (if 0 \<le> b then NInf else PInf)"
| "divide_dbl PInf PInf = NaN"
| "divide_dbl PInf NInf = NaN"
| "divide_dbl NInf PInf = NaN"
| "divide_dbl NInf NInf = NaN"

definition inverse_dbl :: "dbl \<Rightarrow> dbl" where
  "inverse_dbl a = divide (Fin 1) a"

fun abs_dbl :: "dbl \<Rightarrow> dbl" where
  "abs_dbl (Fin a) = Fin \<bar>a\<bar>"
| "abs_dbl PInf = PInf"
| "abs_dbl NInf = PInf"
| "abs_dbl NaN = NaN"

instance ..

end

text \<open>Addition of doubles without rounding is associative and commutative.\<close>

lemma dbl_add_assoc: "(u + v) + w = u + (v + (w::dbl))"
  by (cases u; cases v; cases w; simp)

lemma dbl_add_commute: "u + v = v + (u::dbl)"
  by (cases u; cases v; simp)

lemma dbl_add_zero: "0 + u = (u::dbl)"
  by (cases u; simp add: zero_dbl_def)

instance dbl :: comm_monoid_add
  by standard (fact dbl_add_assoc dbl_add_commute dbl_add_zero)+

text \<open>\<^verbatim>\<open>sqrt\<close>, and the comparison \<^verbatim>\<open>a < b\<close>.\<close>

fun dsqrt :: "dbl \<Rightarrow> dbl" where
  "dsqrt (Fin a) = (if 0 \<le> a then Fin (sqrt a) else NaN)"
| "dsqrt PInf = PInf"
| "dsqrt NInf = NaN"
| "dsqrt NaN = NaN"

fun dless :: "dbl \<Rightarrow> dbl \<Rightarrow> bool" where
  "dless NaN _ = False"
| "dless _ NaN = False"
| "dless (Fin a) (Fin b) = (a < b)"
| "dless (Fin a) PInf = True"
| "dless (Fin a) NInf = False"
| "dless PInf _ = False"
| "dless NInf NInf = False"
| "dless NInf _ = True"

fun isFinite :: "dbl \<Rightarrow> bool" where
  "isFinite (Fin a) = True"
| "isFinite _ = False"

text \<open>
  The conversion of a double to \<^verbatim>\<open>int\<close> truncates towards zero. The model's \<open>int\<close> is
  unbounded; the source's has 32 bits.
\<close>

definition truncInt :: "real \<Rightarrow> int" where
  "truncInt r = (if 0 \<le> r then \<lfloor>r\<rfloor> else \<lceil>r\<rceil>)"


section \<open>Frame description\<close>

datatype craft = QUAD_PLUS | QUAD_X | HEX_PLUS | HEX_X | OCTO_PLUS | OCTO_X | CUSTOM

text \<open>One \<^verbatim>\<open><cube>\<close> element: a payload mass in grams, its extents and its offset.\<close>

record cube =
  cubeMass :: real
  cubeDimX :: real
  cubeDimY :: real
  cubeDimZ :: real
  cubeOffsetX :: real
  cubeOffsetY :: real
  cubeOffsetZ :: real

text \<open>
  \<^verbatim>\<open>quatosData\<close> after the XML has been read. The numbers are what \<^verbatim>\<open>atof\<close> and
  \<^verbatim>\<open>atoi\<close> returned, taken to be finite. \<open>motorsAttr\<close> is the \<^verbatim>\<open>motors\<close> attribute of a
  custom craft; \<open>frameX\<close> and \<open>frameY\<close> hold the \<^verbatim>\<open>geometry\<close> placements of a custom
  craft; the three parallel arrays \<^verbatim>\<open>massObjects\<close>, \<^verbatim>\<open>objectsDim\<close> and
  \<^verbatim>\<open>objectsOffset\<close> are one list of cubes.
\<close>

record quatosData =
  validCraft :: bool
  craftType :: craft
  motorsAttr :: nat
  configId :: int
  ports :: "nat list"
  propDir :: "real list"
  frameX :: "real list"
  frameY :: "real list"
  massEsc :: real
  massMot :: real
  massArm :: real
  distMot :: real
  distEsc :: real
  cubes :: "cube list"

text \<open>
  The number of motors \<^verbatim>\<open>quatosData.n\<close>: \<^verbatim>\<open>parseCraft\<close> takes it from the \<^verbatim>\<open>motors\<close>
  attribute of a custom craft, \<^verbatim>\<open>resetCraft\<close> sets it for the predefined types.
\<close>

fun motorCount :: "craft \<Rightarrow> nat \<Rightarrow> nat" where
  "motorCount QUAD_PLUS m = 4"
| "motorCount QUAD_X m = 4"
| "motorCount HEX_PLUS m = 6"
| "motorCount HEX_X m = 6"
| "motorCount OCTO_PLUS m = 8"
| "motorCount OCTO_X m = 8"
| "motorCount CUSTOM m = m"

definition numMotors :: "quatosData \<Rightarrow> nat" where
  "numMotors d = motorCount (craftType d) (motorsAttr d)"

section \<open>Motor geometry (\<^verbatim>\<open>quatosToolCalc\<close>, lines 730--759)\<close>

definition DEG_TO_RAD :: real where
  "DEG_TO_RAD = pi / 180"

text \<open>
  The \<^verbatim>\<open>switch\<close> over the craft type. It has no case for a custom craft, whose parsed
  placements \<open>g\<close> stay as they are. \<^verbatim>\<open>HEX_PLUS\<close> assigns both vectors twice; the second
  assignment is the one that stays. \<^verbatim>\<open>cosf\<close> is the cosine.
\<close>

fun frameGeometry :: "craft \<Rightarrow> real list \<times> real list \<Rightarrow> real list \<times> real list" where
  "frameGeometry QUAD_PLUS g = ([1, 0, -1, 0], [0, 1, 0, -1])"
| "frameGeometry QUAD_X g =
     ([sqrt 2 / 2, sqrt 2 / 2, - sqrt 2 / 2, - sqrt 2 / 2],
      [- sqrt 2 / 2, sqrt 2 / 2, sqrt 2 / 2, - sqrt 2 / 2])"
| "frameGeometry HEX_PLUS g =
     ([1, 0.5, -0.5, -1, -0.5, 0.5],
      [0, sqrt 3 / 2, sqrt 3 / 2, 0, - sqrt 3 / 2, - sqrt 3 / 2])"
| "frameGeometry HEX_X g =
     ([sqrt 3 / 2, sqrt 3 / 2, 0, - sqrt 3 / 2, - sqrt 3 / 2, 0],
      [-0.5, 0.5, 1, 0.5, -0.5, -1])"
| "frameGeometry OCTO_PLUS g =
     ([1, cos (45 * DEG_TO_RAD), 0, cos (135 * DEG_TO_RAD),
       -1, cos (225 * DEG_TO_RAD), 0, cos (315 * DEG_TO_RAD)],
      [0, cos (315 * DEG_TO_RAD), 1, cos (45 * DEG_TO_RAD),
       0, cos (135 * DEG_TO_RAD), -1, cos (225 * DEG_TO_RAD)])"
| "frameGeometry OCTO_X g =
     ([cos (337.5 * DEG_TO_RAD), cos (22.5 * DEG_TO_RAD), cos (67.5 * DEG_TO_RAD),
       cos (112.5 * DEG_TO_RAD), cos (157.5 * DEG_TO_RAD), cos (202.5 * DEG_TO_RAD),
       cos (247.5 * DEG_TO_RAD), cos (292.5 * DEG_TO_RAD)],
      [cos (247.5 * DEG_TO_RAD), cos (292.5 * DEG_TO_RAD), cos (337.5 * DEG_TO_RAD),
       cos (22.5 * DEG_TO_RAD), cos (67.5 * DEG_TO_RAD), cos (112.5 * DEG_TO_RAD),
       cos (157.5 * DEG_TO_RAD), cos (202.5 * DEG_TO_RAD)])"
| "frameGeometry CUSTOM g = g"

definition framePoints :: "craft \<Rightarrow> real list \<times> real list \<Rightarrow> (real \<times> real) list" where
  "framePoints t g = zip (fst (frameGeometry t g)) (snd (frameGeometry t g))"

definition calcFrameX :: "quatosData \<Rightarrow> real list" where
  "calcFrameX d = fst (frameGeometry (craftType d) (frameX d, frameY d))"

definition calcFrameY :: "quatosData \<Rightarrow> real list" where
  "calcFrameY d = snd (frameGeometry (craftType d) (frameX d, frameY d))"

text \<open>
  What the spec asks of a standard topology, in its own terms: \<open>n\<close> points of the unit
  circle, \<open>2 pi / n\<close> apart, from a starting phase. The phases are those of motor 0.
\<close>

definition evenlySpaced :: "nat \<Rightarrow> real \<Rightarrow> (real \<times> real) list" where
  "evenlySpaced n phi =
     map (\<lambda>i. (cos (phi + real i * (2 * pi / real n)), sin (phi + real i * (2 * pi / real n))))
       [0..<n]"

fun startPhase :: "craft \<Rightarrow> real" where
  "startPhase QUAD_PLUS = 0"
| "startPhase QUAD_X = - (pi / 4)"
| "startPhase HEX_PLUS = 0"
| "startPhase HEX_X = - (pi / 6)"
| "startPhase OCTO_PLUS = 0"
| "startPhase OCTO_X = - (pi / 8)"
| "startPhase CUSTOM = 0"


section \<open>Mass, centre of gravity, inertia (\<^verbatim>\<open>quatosToolObjCalc\<close>)\<close>

text \<open>
  \<^verbatim>\<open>object_t\<close>. Mass and position are computed doubles; the extents are zero or the
  extents of a cube, as read.
\<close>

record object_t =
  objMass :: dbl
  objX :: dbl
  objY :: dbl
  objZ :: dbl
  objDimX :: real
  objDimY :: real
  objDimZ :: real

text \<open>A 3 by 3 matrix (\<^verbatim>\<open>Matrix3d\<close>) is its coefficient function on the indices below 3.\<close>

type_synonym mat3 = "nat \<Rightarrow> nat \<Rightarrow> dbl"

definition rows3 :: "dbl list list \<Rightarrow> mat3" where
  "rows3 rs = (\<lambda>i j. rs ! i ! j)"

definition mul3 :: "mat3 \<Rightarrow> mat3 \<Rightarrow> mat3" where
  "mul3 A B = (\<lambda>i j. \<Sum>k<3. A i k * B k j)"

definition zero3 :: mat3 where
  "zero3 = (\<lambda>i j. 0)"

text \<open>\<^verbatim>\<open>quatosToolJCalc\<close>: \<^verbatim>\<open>J = J - mass*(S*S)\<close> for the cross product matrix \<open>S\<close>.\<close>

definition crossMatrix :: "dbl \<Rightarrow> dbl \<Rightarrow> dbl \<Rightarrow> mat3" where
  "crossMatrix x y z = rows3 [[0, - z, y], [z, 0, - x], [- y, x, 0]]"

definition quatosToolJCalc :: "mat3 \<Rightarrow> dbl \<Rightarrow> dbl \<Rightarrow> dbl \<Rightarrow> dbl \<Rightarrow> mat3" where
  "quatosToolJCalc J mass x y z =
     (let S = crossMatrix x y z in (\<lambda>i j. J i j - mass * mul3 S S i j))"

text \<open>
  What one call subtracts from \<^verbatim>\<open>J\<close>, with its sign: the inertia of a point mass at
  \<open>(x, y, z)\<close>.
\<close>

definition pointInertia :: "dbl \<Rightarrow> dbl \<Rightarrow> dbl \<Rightarrow> dbl \<Rightarrow> mat3" where
  "pointInertia mass x y z =
     (\<lambda>i j. - (mass * mul3 (crossMatrix x y z) (crossMatrix x y z) i j))"

text \<open>
  \<^verbatim>\<open>quatosToolShapeCalc\<close>: the three nested loops over the millimetre cells of a cuboid.
  A loop whose bound is not positive does not run.
\<close>

definition cellCounts :: "object_t \<Rightarrow> int \<times> int \<times> int" where
  "cellCounts ob =
     (truncInt (objDimX ob * 1000), truncInt (objDimY ob * 1000), truncInt (objDimZ ob * 1000))"

definition cellMass :: "object_t \<Rightarrow> dbl" where
  "cellMass ob = (case cellCounts ob of (x, y, z) \<Rightarrow> objMass ob / Fin (of_int (x * y * z)))"

definition cellSign :: "dbl \<Rightarrow> real" where
  "cellSign v = (if dless v 0 then -1 else 1)"

definition cellPosition ::
  "object_t \<Rightarrow> dbl \<times> dbl \<times> dbl \<Rightarrow> nat \<Rightarrow> nat \<Rightarrow> nat \<Rightarrow> dbl \<times> dbl \<times> dbl" where
  "cellPosition ob cg i j k =
     (case cg of (cg0, cg1, cg2) \<Rightarrow>
        (objX ob - cg0 - Fin (objDimX ob / 2 + real i / 1000) * Fin (cellSign (objX ob)),
         objY ob - cg1 - Fin (objDimY ob / 2 + real j / 1000) * Fin (cellSign (objY ob)),
         objZ ob - cg2 - Fin (objDimZ ob / 2 + real k / 1000) * Fin (cellSign (objZ ob))))"

definition cellJ :: "object_t \<Rightarrow> dbl \<times> dbl \<times> dbl \<Rightarrow> nat \<Rightarrow> nat \<Rightarrow> nat \<Rightarrow> mat3 \<Rightarrow> mat3" where
  "cellJ ob cg i j k J =
     (case cellPosition ob cg i j k of (px, py, pz) \<Rightarrow>
        quatosToolJCalc J (cellMass ob) px py pz)"

definition quatosToolShapeCalc :: "mat3 \<Rightarrow> object_t \<Rightarrow> dbl \<times> dbl \<times> dbl \<Rightarrow> mat3" where
  "quatosToolShapeCalc J ob cg =
     (case cellCounts ob of (x, y, z) \<Rightarrow>
        fold (\<lambda>i. fold (\<lambda>j. fold (\<lambda>k. cellJ ob cg i j k) [0..<nat z]) [0..<nat y])
          [0..<nat x] J)"

text \<open>
  The objects of motor \<open>i\<close>: the motor, its ESC and its arm, in this order. A predefined
  frame scales the unit placement by \<^verbatim>\<open>distMot\<close> and \<^verbatim>\<open>distEsc\<close>; a custom frame takes
  the placement as it is and puts the ESC at \<^verbatim>\<open>distEsc\<close> along the normalised placement.
\<close>

definition pointObject :: "dbl \<Rightarrow> dbl \<Rightarrow> dbl \<Rightarrow> object_t" where
  "pointObject m px py =
     \<lparr>objMass = m, objX = px, objY = py, objZ = Fin 0, objDimX = 0, objDimY = 0, objDimZ = 0\<rparr>"

definition motorObject :: "quatosData \<Rightarrow> nat \<Rightarrow> object_t" where
  "motorObject d i =
     (let fx = Fin (calcFrameX d ! i); fy = Fin (calcFrameY d ! i) in
      if craftType d \<noteq> CUSTOM
      then pointObject (Fin (massMot d)) (fx * Fin (distMot d)) (fy * Fin (distMot d))
      else pointObject (Fin (massMot d)) fx fy)"

definition escObject :: "quatosData \<Rightarrow> nat \<Rightarrow> object_t" where
  "escObject d i =
     (let fx = Fin (calcFrameX d ! i); fy = Fin (calcFrameY d ! i) in
      if craftType d \<noteq> CUSTOM
      then pointObject (Fin (massEsc d)) (fx * Fin (distEsc d)) (fy * Fin (distEsc d))
      else let norm = dsqrt (fx * fx + fy * fy) in
        pointObject (Fin (massEsc d)) (fx / norm * Fin (distEsc d)) (fy / norm * Fin (distEsc d)))"

definition armObject :: "quatosData \<Rightarrow> nat \<Rightarrow> object_t" where
  "armObject d i =
     (let fx = Fin (calcFrameX d ! i); fy = Fin (calcFrameY d ! i) in
      if craftType d \<noteq> CUSTOM
      then pointObject (Fin (massArm d)) (fx / Fin 2 * Fin (distMot d)) (fy / Fin 2 * Fin (distMot d))
      else pointObject (Fin (massArm d)) (fx / Fin 2) (fy / Fin 2))"

definition cubeObject :: "cube \<Rightarrow> object_t" where
  "cubeObject c =
     \<lparr>objMass = Fin (cubeMass c),
      objX = Fin (cubeOffsetX c), objY = Fin (cubeOffsetY c), objZ = Fin (cubeOffsetZ c),
      objDimX = cubeDimX c, objDimY = cubeDimY c, objDimZ = cubeDimZ c\<rparr>"

definition buildObjects :: "quatosData \<Rightarrow> object_t list" where
  "buildObjects d =
     concat (map (\<lambda>i. [motorObject d i, escObject d i, armObject d i]) [0..<numMotors d])
     @ map cubeObject (cubes d)"

text \<open>
  The array \<^verbatim>\<open>objs\<close> has 256 slots and the source does not check the count; a frame
  with more objects writes past it. The theorems below are about frames that fit.
\<close>

definition objectsFit :: "quatosData \<Rightarrow> bool" where
  "objectsFit d = (3 * numMotors d + length (cubes d) \<le> 256)"

text \<open>
  The loop that turns grams into kilograms and accumulates the tot mass and the mass
  moments. It returns the objects with their new masses, the tot and the moments.
\<close>

fun massLoop ::
  "object_t list \<Rightarrow> dbl \<Rightarrow> dbl \<times> dbl \<times> dbl \<Rightarrow> object_t list \<times> dbl \<times> (dbl \<times> dbl \<times> dbl)" where
  "massLoop [] tot cg = ([], tot, cg)"
| "massLoop (ob # obs) tot (c0, c1, c2) =
     (let m = objMass ob / Fin 1000;
          (obs', tot', cg') =
             massLoop obs (tot + m) (c0 + m * objX ob, c1 + m * objY ob, c2 + m * objZ ob)
      in (ob\<lparr>objMass := m\<rparr> # obs', tot', cg'))"

text \<open>The loop that accumulates \<^verbatim>\<open>J\<close>: a cuboid when all three extents are nonzero.\<close>

definition objectJ :: "dbl \<times> dbl \<times> dbl \<Rightarrow> object_t \<Rightarrow> mat3 \<Rightarrow> mat3" where
  "objectJ cg ob J =
     (if objDimX ob \<noteq> 0 \<and> objDimY ob \<noteq> 0 \<and> objDimZ ob \<noteq> 0
      then quatosToolShapeCalc J ob cg
      else case cg of (cg0, cg1, cg2) \<Rightarrow>
        quatosToolJCalc J (objMass ob) (objX ob - cg0) (objY ob - cg1) (objZ ob - cg2))"

record inertia =
  totalMass :: dbl
  offsetCG :: "dbl \<times> dbl \<times> dbl"
  objectsCount :: nat
  inertiaJ :: mat3

definition quatosToolObjCalc :: "quatosData \<Rightarrow> inertia" where
  "quatosToolObjCalc d =
     (case massLoop (buildObjects d) 0 (0, 0, 0) of
        (objs, tot, (c0, c1, c2)) \<Rightarrow>
          let cg = (c0 / tot, c1 / tot, c2 / tot) in
          \<lparr>totalMass = tot, offsetCG = cg, objectsCount = length objs,
           inertiaJ = fold (objectJ cg) objs zero3\<rparr>)"



section \<open>Matrices\<close>

text \<open>
  A dynamic matrix (\<^verbatim>\<open>MatrixXd\<close>) is its two sizes and its coefficient function; only
  the coefficients inside the sizes mean anything. A vector of size \<open>n\<close> is a function on
  the indices below \<open>n\<close>.
\<close>

record mat =
  nrows :: nat
  ncols :: nat
  coeff :: "nat \<Rightarrow> nat \<Rightarrow> dbl"

type_synonym vec = "nat \<Rightarrow> dbl"

definition matMul :: "mat \<Rightarrow> mat \<Rightarrow> mat" where
  "matMul A B =
     \<lparr>nrows = nrows A, ncols = ncols B,
      coeff = (\<lambda>i j. \<Sum>k<ncols A. coeff A i k * coeff B k j)\<rparr>"

definition transposeM :: "mat \<Rightarrow> mat" where
  "transposeM A = \<lparr>nrows = ncols A, ncols = nrows A, coeff = (\<lambda>i j. coeff A j i)\<rparr>"

text \<open>The product with a diagonal matrix on the right scales the columns.\<close>

definition scaleCols :: "mat \<Rightarrow> vec \<Rightarrow> mat" where
  "scaleCols A v = \<lparr>nrows = nrows A, ncols = ncols A, coeff = (\<lambda>i j. coeff A i j * v j)\<rparr>"

text \<open>The comma initialisers: rows stacked, a column written out, blocks side by side.\<close>

definition fromRows :: "nat \<Rightarrow> vec list \<Rightarrow> mat" where
  "fromRows n rs = \<lparr>nrows = length rs, ncols = n, coeff = (\<lambda>i j. (rs ! i) j)\<rparr>"

definition colVector :: "dbl list \<Rightarrow> mat" where
  "colVector bs = \<lparr>nrows = length bs, ncols = 1, coeff = (\<lambda>i j. bs ! i)\<rparr>"

definition hcat :: "mat \<Rightarrow> mat \<Rightarrow> mat" where
  "hcat A B =
     \<lparr>nrows = nrows A, ncols = ncols A + ncols B,
      coeff = (\<lambda>i j. if j < ncols A then coeff A i j else coeff B i (j - ncols A))\<rparr>"

text \<open>
  \<^verbatim>\<open>maxCoeff\<close> of a vector of size \<open>n\<close>: the first coefficient, replaced by each later
  one that compares greater.
\<close>

definition maxCoeff :: "nat \<Rightarrow> vec \<Rightarrow> dbl" where
  "maxCoeff n v = fold (\<lambda>i res. if dless res (v i) then v i else res) [1..<n] (v 0)"

text \<open>
  \<^verbatim>\<open>inverse()\<close> is Eigen's, and the source applies it to the 3 by 3 product \<^verbatim>\<open>M*PD\<close>
  only. The model is the quotient of the cofactors by the determinant: for a finite
  matrix with nonzero determinant the inverse, as Eigen's is; for a singular matrix
  every coefficient is a quotient by zero.
\<close>

definition cofactor3 :: "(nat \<Rightarrow> nat \<Rightarrow> dbl) \<Rightarrow> nat \<Rightarrow> nat \<Rightarrow> dbl" where
  "cofactor3 a i j =
     a ((i + 1) mod 3) ((j + 1) mod 3) * a ((i + 2) mod 3) ((j + 2) mod 3)
     - a ((i + 1) mod 3) ((j + 2) mod 3) * a ((i + 2) mod 3) ((j + 1) mod 3)"

definition det3 :: "(nat \<Rightarrow> nat \<Rightarrow> dbl) \<Rightarrow> dbl" where
  "det3 a = (\<Sum>j<3. a 0 j * cofactor3 a 0 j)"

definition matInverse :: "mat \<Rightarrow> mat" where
  "matInverse A =
     \<lparr>nrows = nrows A, ncols = ncols A,
      coeff = (\<lambda>i j. cofactor3 (coeff A) j i / det3 (coeff A))\<rparr>"

section \<open>The pseudo-inverse (\<^verbatim>\<open>pseudoInverse\<close>)\<close>

text \<open>
  The singular value decomposition \<^verbatim>\<open>jacobiSvd(ComputeThinU | ComputeThinV)\<close> is Eigen's.
  It is a parameter of the model: a function from a matrix to its three factors.
\<close>

record svd =
  matrixU :: mat
  singularValues :: vec
  matrixV :: mat

definition DBL_EPSILON :: real where
  "DBL_EPSILON = 1 / 2 ^ 52"

definition svdTolerance :: "svd \<Rightarrow> mat \<Rightarrow> real \<Rightarrow> dbl" where
  "svdTolerance s a epsilon =
     Fin epsilon * Fin (real (max (ncols a) (nrows a)))
       * maxCoeff (min (nrows a) (ncols a)) (\<lambda>i. \<bar>singularValues s i\<bar>)"

definition invertedSingularValues :: "svd \<Rightarrow> mat \<Rightarrow> real \<Rightarrow> vec" where
  "invertedSingularValues s a epsilon =
     (\<lambda>i. if dless (svdTolerance s a epsilon) \<bar>singularValues s i\<bar>
          then inverse (singularValues s i) else 0)"

definition pseudoInverse :: "(mat \<Rightarrow> svd) \<Rightarrow> mat \<Rightarrow> real \<Rightarrow> mat" where
  "pseudoInverse jacobiSvd a epsilon =
     (let s = jacobiSvd a in
      matMul (scaleCols (matrixV s) (invertedSingularValues s a epsilon))
             (transposeM (matrixU s)))"

section \<open>Mixer synthesis (\<^verbatim>\<open>quatosToolCalc\<close>, lines 761--857)\<close>

text \<open>
  The motor coordinates about the centre of gravity, and the rotation signs turned
  round (\<^verbatim>\<open>propDir *= -1.0\<close>).
\<close>

definition calcMotorX :: "quatosData \<Rightarrow> dbl \<times> dbl \<times> dbl \<Rightarrow> vec" where
  "calcMotorX d cg =
     (\<lambda>j. (if craftType d \<noteq> CUSTOM then Fin (calcFrameX d ! j) * Fin (distMot d)
            else Fin (calcFrameX d ! j))
          - 1 * fst cg)"

definition calcMotorY :: "quatosData \<Rightarrow> dbl \<times> dbl \<times> dbl \<Rightarrow> vec" where
  "calcMotorY d cg =
     (\<lambda>j. (if craftType d \<noteq> CUSTOM then Fin (calcFrameY d ! j) * Fin (distMot d)
            else Fin (calcFrameY d ! j))
          - 1 * fst (snd cg))"

definition calcPropDir :: "quatosData \<Rightarrow> vec" where
  "calcPropDir d = (\<lambda>j. Fin (propDir d ! j) * Fin (- 1))"

definition ones :: vec where
  "ones = (\<lambda>j. 1)"

definition neg :: "vec \<Rightarrow> vec" where
  "neg v = (\<lambda>j. - v j)"

text \<open>The four systems and their targets.\<close>

definition rollSystem :: "nat \<Rightarrow> vec \<Rightarrow> vec \<Rightarrow> mat" where
  "rollSystem n mX mY = fromRows n [mX, ones, neg mY]"

definition pitchSystem :: "nat \<Rightarrow> vec \<Rightarrow> vec \<Rightarrow> mat" where
  "pitchSystem n mX mY = fromRows n [neg mY, ones, mX]"

definition yawSystem :: "nat \<Rightarrow> vec \<Rightarrow> vec \<Rightarrow> vec \<Rightarrow> mat" where
  "yawSystem n mX mY pd = fromRows n [mX, mY, pd]"

definition throttleSystem :: "nat \<Rightarrow> vec \<Rightarrow> vec \<Rightarrow> vec \<Rightarrow> mat" where
  "throttleSystem n mX mY pd = fromRows n [mX, mY, pd, ones]"

definition attitudeTarget :: mat where
  "attitudeTarget = colVector [0, 0, 1]"

definition throttleTarget :: "nat \<Rightarrow> mat" where
  "throttleTarget n = colVector [0, 0, 0, Fin (real n)]"

definition solveSystem :: "(mat \<Rightarrow> svd) \<Rightarrow> mat \<Rightarrow> mat \<Rightarrow> mat" where
  "solveSystem jacobiSvd A B = matMul (pseudoInverse jacobiSvd A DBL_EPSILON) B"

text \<open>\<^verbatim>\<open>M\<close>, \<^verbatim>\<open>Mt\<close> and \<^verbatim>\<open>PID\<close>.\<close>

definition torqueMatrix :: "nat \<Rightarrow> vec \<Rightarrow> vec \<Rightarrow> vec \<Rightarrow> mat" where
  "torqueMatrix n mX mY pd = fromRows n [neg mY, mX, pd]"

definition calcMt :: "mat \<Rightarrow> mat \<Rightarrow> mat \<Rightarrow> mat" where
  "calcMt THROT PD M = hcat THROT (matMul PD (matInverse (matMul M PD)))"

definition calcPID :: "mat \<Rightarrow> mat" where
  "calcPID Mt =
     \<lparr>nrows = nrows Mt, ncols = 4,
      coeff = (\<lambda>j a. coeff Mt j a / maxCoeff (nrows Mt) (\<lambda>i. \<bar>coeff Mt i a\<bar>) * Fin 100)\<rparr>"

record mixer =
  mixInertia :: inertia
  mixMotorX :: vec
  mixMotorY :: vec
  mixPropDir :: vec
  mixROLL :: mat
  mixPITCH :: mat
  mixYAW :: mat
  mixTHROT :: mat
  mixPD :: mat
  mixM :: mat
  mixMt :: mat
  mixPID :: mat

definition quatosToolCalc :: "(mat \<Rightarrow> svd) \<Rightarrow> quatosData \<Rightarrow> mixer" where
  "quatosToolCalc jacobiSvd d =
     (let n = numMotors d;
          inr = quatosToolObjCalc d;
          mX = calcMotorX d (offsetCG inr);
          mY = calcMotorY d (offsetCG inr);
          pd = calcPropDir d;
          ROLL = solveSystem jacobiSvd (rollSystem n mX mY) attitudeTarget;
          PITCH = solveSystem jacobiSvd (pitchSystem n mX mY) attitudeTarget;
          YAW = solveSystem jacobiSvd (yawSystem n mX mY pd) attitudeTarget;
          THROT = solveSystem jacobiSvd (throttleSystem n mX mY pd) (throttleTarget n);
          PD = hcat (hcat ROLL PITCH) YAW;
          M = torqueMatrix n mX mY pd;
          Mt = calcMt THROT PD M
      in \<lparr>mixInertia = inr, mixMotorX = mX, mixMotorY = mY, mixPropDir = pd,
          mixROLL = ROLL, mixPITCH = PITCH, mixYAW = YAW, mixTHROT = THROT,
          mixPD = PD, mixM = M, mixMt = Mt, mixPID = calcPID Mt\<rparr>)"

section \<open>The program (\<^verbatim>\<open>main\<close>)\<close>

text \<open>
  After the XML has been read, \<^verbatim>\<open>main\<close> returns \<open>-1\<close> without output when no valid
  craft was found; otherwise it calls \<^verbatim>\<open>quatosToolCalc\<close>, prints the tables and returns
  \<open>0\<close>. Nothing between the call and the \<^verbatim>\<open>return 0\<close> can end the program otherwise.
\<close>

definition quatosMain :: "(mat \<Rightarrow> svd) \<Rightarrow> quatosData \<Rightarrow> int \<times> mixer option" where
  "quatosMain jacobiSvd d =
     (if \<not> validCraft d then (- 1, None) else (0, Some (quatosToolCalc jacobiSvd d)))"

text \<open>
  The three attitude columns of \<^verbatim>\<open>Mt\<close> (its columns 1, 2 and 3), and the real number a
  finite double stands for.
\<close>

definition attitudeColumns :: "mat \<Rightarrow> mat" where
  "attitudeColumns Mt = \<lparr>nrows = nrows Mt, ncols = 3, coeff = (\<lambda>j c. coeff Mt j (c + 1))\<rparr>"

fun realOf :: "dbl \<Rightarrow> real" where
  "realOf (Fin a) = a"
| "realOf _ = 0"

text \<open>Cofactors and determinant of a 3 by 3 matrix of real numbers.\<close>

definition realCofactor3 :: "(nat \<Rightarrow> nat \<Rightarrow> real) \<Rightarrow> nat \<Rightarrow> nat \<Rightarrow> real" where
  "realCofactor3 b i j =
     b ((i + 1) mod 3) ((j + 1) mod 3) * b ((i + 2) mod 3) ((j + 2) mod 3)
     - b ((i + 1) mod 3) ((j + 2) mod 3) * b ((i + 2) mod 3) ((j + 1) mod 3)"

definition realDet3 :: "(nat \<Rightarrow> nat \<Rightarrow> real) \<Rightarrow> real" where
  "realDet3 b = (\<Sum>j<3. b 0 j * realCofactor3 b 0 j)"


section \<open>Example frames and an example decomposition\<close>

text \<open>
  The frames the closed examples below are about. All are custom frames of four motors
  with the default masses and distances. \<open>crossFrame\<close> has its motors at the corners of a
  square; \<open>lineFrame\<close> has them in two pairs on the roll axis, so that all motors are
  collinear and two positions are duplicated; \<open>originFrame\<close> has its first motor at the
  origin; \<open>masslessFrame\<close> is \<open>crossFrame\<close> with every mass set to zero.
\<close>

definition crossFrame :: quatosData where
  "crossFrame =
     \<lparr>validCraft = True, craftType = CUSTOM, motorsAttr = 4, configId = 0,
      ports = [1, 2, 3, 4], propDir = [1, - 1, 1, - 1],
      frameX = [1, 1, - 1, - 1], frameY = [1, - 1, - 1, 1],
      massEsc = 20, massMot = 100, massArm = 80, distMot = 0.25, distEsc = 0.1,
      cubes = []\<rparr>"

definition lineFrame :: quatosData where
  "lineFrame = crossFrame\<lparr>frameY := [0, 0, 0, 0]\<rparr>"

definition originFrame :: quatosData where
  "originFrame = crossFrame\<lparr>frameX := [0, 1, - 1, - 1], frameY := [0, - 1, - 1, 1]\<rparr>"


text \<open>
  A singular value decomposition for the systems of \<open>crossFrame\<close> and \<open>lineFrame\<close>: their
  rows are zero or have the four entries \<open>1\<close> or \<open>- 1\<close>, and the nonzero rows are mutually
  orthogonal. Such a matrix is \<open>U S V-transposed\<close> with \<open>U\<close> the identity, the singular value 2
  for a nonzero row and 0 for a zero row, and the columns of \<open>V\<close> the rows halved, a zero
  row being replaced by the unit vector \<open>(1, -1, -1, 1) / 2\<close> that is orthogonal to all
  rows. Eigen orders the singular values; the pseudo-inverse does not depend on the
  order.
\<close>

definition zeroRow :: "mat \<Rightarrow> nat \<Rightarrow> bool" where
  "zeroRow A i = list_all (\<lambda>j. coeff A i j = Fin 0) [0..<ncols A]"

definition spareVector :: vec where
  "spareVector = (\<lambda>j. Fin ([1 / 2, - 1 / 2, - 1 / 2, 1 / 2] ! j))"

definition exampleSvd :: "mat \<Rightarrow> svd" where
  "exampleSvd A =
     \<lparr>matrixU = \<lparr>nrows = nrows A, ncols = nrows A,
                  coeff = (\<lambda>i l. if i = l then Fin 1 else Fin 0)\<rparr>,
      singularValues = (\<lambda>l. if zeroRow A l then Fin 0 else Fin 2),
      matrixV = \<lparr>nrows = ncols A, ncols = nrows A,
                  coeff = (\<lambda>j l. if zeroRow A l then spareVector j else coeff A l j / Fin 2)\<rparr>\<rparr>"


section \<open>Port order words (\<^verbatim>\<open>main\<close>, lines 1028--1048)\<close>

text \<open>
  \<^verbatim>\<open>portOrder\<close> is an \<^verbatim>\<open>unsigned long\<close>, modelled as a 64-bit word; the ports are
  the integer values \<^verbatim>\<open>atoi\<close> read, held in doubles and converted back by
  \<^verbatim>\<open>static_cast<unsigned long>\<close>. That conversion is undefined for a negative value, so
  ports are modelled as naturals. The descending loop
  \<^verbatim>\<open>for (; i >= 0; --i) portOrder |= ports(i + off) << (base + 4 * i)\<close>
  becomes a recursion on the number \<open>i + 1\<close> of iterations still to run.
\<close>

fun portLoop :: "nat list \<Rightarrow> nat \<Rightarrow> nat \<Rightarrow> nat \<Rightarrow> 64 word \<Rightarrow> 64 word" where
  "portLoop ps off base 0 acc = acc"
| "portLoop ps off base (Suc i) acc =
     portLoop ps off base i
       (acc OR push_bit (base + 4 * i) (word_of_nat (ps ! (i + off))))"

text \<open>
  \<^verbatim>\<open>float val = *(float *) &portOrder\<close> reads the first four bytes of the object: on a
  little-endian machine the low 32 bits, which \<open>ucast\<close> takes. \<open>motFrame\<close> is the
  bit pattern printed as \<^verbatim>\<open>DEFAULT_MOT_FRAME\<close>, \<open>motFrameH\<close> the one printed as
  \<^verbatim>\<open>DEFAULT_MOT_FRAME_H\<close> when there are more than six ports.
\<close>

definition motFrame :: "nat list \<Rightarrow> int \<Rightarrow> 32 word" where
  "motFrame ps cid =
     ucast (portLoop ps 0 8 (nat (min 5 (int (length ps) - 1) + 1)) 0
            OR word_of_int cid)"

definition motFrameH :: "nat list \<Rightarrow> 32 word option" where
  "motFrameH ps =
     (if length ps > 6
      then Some (ucast (portLoop ps 6 0 (nat (min 7 (int (length ps) - 7) + 1)) 0))
      else None)"

text \<open>
  What the program writes is not the word but \<^verbatim>\<open>fprintf("%.20g", val)\<close> of the float
  whose bit pattern the word is. \<open>floatOfBits\<close> is that reinterpretation (IEEE binary32:
  sign bit 31, exponent bits 23--30, mantissa bits 0--22); a finite float is its sign and
  its magnitude.
\<close>

datatype float32 = FloatNan bool | FloatInf bool | FloatFin bool real

definition floatExponent :: "32 word \<Rightarrow> nat" where
  "floatExponent w = unat (drop_bit 23 w AND 0xFF)"

definition floatMantissa :: "32 word \<Rightarrow> nat" where
  "floatMantissa w = unat (w AND 0x7FFFFF)"

definition floatOfBits :: "32 word \<Rightarrow> float32" where
  "floatOfBits w =
     (if floatExponent w = 255
      then (if floatMantissa w = 0 then FloatInf (bit w 31) else FloatNan (bit w 31))
      else if floatExponent w = 0
      then FloatFin (bit w 31) (real (floatMantissa w) / 2 ^ 149)
      else FloatFin (bit w 31)
             (real (2 ^ 23 + floatMantissa w) * 2 powi (int (floatExponent w) - 150)))"

text \<open>
  \<^verbatim>\<open>%.20g\<close> writes a finite value as the decimal number of 20 significant digits nearest
  to it (ties to the even digit), an infinity as \<^verbatim>\<open>inf\<close> and every NaN as \<^verbatim>\<open>nan\<close>, each
  with its sign. The text of a number is modelled by the number it denotes.
\<close>

datatype printed = TextNan bool | TextInf bool | TextNum bool real

definition roundEven :: "real \<Rightarrow> int" where
  "roundEven x =
     (if x - of_int \<lfloor>x\<rfloor> < 1 / 2 then \<lfloor>x\<rfloor>
      else if 1 / 2 < x - of_int \<lfloor>x\<rfloor> then \<lfloor>x\<rfloor> + 1
      else if even \<lfloor>x\<rfloor> then \<lfloor>x\<rfloor> else \<lfloor>x\<rfloor> + 1)"

definition significantDigits :: "nat \<Rightarrow> real \<Rightarrow> real" where
  "significantDigits p x =
     (if x = 0 then 0
      else of_int (roundEven (x * 10 powi (int p - 1 - \<lfloor>log 10 \<bar>x\<bar>\<rfloor>)))
           * 10 powi (\<lfloor>log 10 \<bar>x\<bar>\<rfloor> - (int p - 1)))"

definition printG20 :: "float32 \<Rightarrow> printed" where
  "printG20 f =
     (case f of
        FloatNan s \<Rightarrow> TextNan s
      | FloatInf s \<Rightarrow> TextInf s
      | FloatFin s x \<Rightarrow> TextNum s (significantDigits 20 x))"

text \<open>
  The two lines \<^verbatim>\<open>#define DEFAULT_MOT_FRAME\<close> and \<^verbatim>\<open>#define DEFAULT_MOT_FRAME_H\<close> of the
  output; the second is written when there are more than six ports.
\<close>

definition printedMotFrame :: "nat list \<Rightarrow> int \<Rightarrow> printed" where
  "printedMotFrame ps cid = printG20 (floatOfBits (motFrame ps cid))"

definition printedMotFrameH :: "nat list \<Rightarrow> printed option" where
  "printedMotFrameH ps = map_option (\<lambda>w. printG20 (floatOfBits w)) (motFrameH ps)"

text \<open>
  Modelled from the spec: the decoder is firmware code, not part of this repository. It
  reads the printed number back as a float and takes its bit pattern; the spec documents
  the layout of that word: the \<^verbatim>\<open>configId\<close> in bits 0--7, the port of motor
  \<open>i < 6\<close> in bits \<open>8 + 4 i .. 11 + 4 i\<close> of the first word, the port of motor \<open>i \<ge> 6\<close>
  in bits \<open>4 (i - 6) .. 4 (i - 6) + 3\<close> of the second word.
\<close>

definition decodeConfigId :: "32 word \<Rightarrow> int" where
  "decodeConfigId w = uint (w AND 0xFF)"

definition decodeField :: "nat \<Rightarrow> 32 word \<Rightarrow> nat" where
  "decodeField sh w = unat (drop_bit sh w AND 0xF)"

definition decodePort :: "32 word \<Rightarrow> 32 word option \<Rightarrow> nat \<Rightarrow> nat" where
  "decodePort w wH i =
     (if i < 6 then decodeField (8 + 4 * i) w
      else case wH of None \<Rightarrow> 0 | Some h \<Rightarrow> decodeField (4 * (i - 6)) h)"

definition decodePorts :: "nat \<Rightarrow> 32 word \<Rightarrow> 32 word option \<Rightarrow> nat list" where
  "decodePorts n w wH = map (decodePort w wH) [0..<n]"


section \<open>Values of the frame tables\<close>

lemma upt4: "[0..<4] = [0, 1, 2, 3]"
  by code_simp

lemma upt6: "[0..<6] = [0, 1, 2, 3, 4, 5]"
  by code_simp

lemma upt8: "[0..<8] = [0, 1, 2, 3, 4, 5, 6, 7]"
  by code_simp

text \<open>Cosine and sine of an angle written as a sum.\<close>

lemma angle_sum:
  fixes t u v :: real
  assumes "t = u + v"
  shows "cos t = cos u * cos v - sin u * sin v" and "sin t = sin u * cos v + cos u * sin v"
proof -
  show "cos t = cos u * cos v - sin u * sin v"
    unfolding assms by (rule cos_add)
  show "sin t = sin u * cos v + cos u * sin v"
    unfolding assms by (rule sin_add)
qed

lemma three_half_pi: "cos (3 * pi / 2) = 0" "sin (3 * pi / 2) = - 1"
  using angle_sum [of "3 * pi / 2" pi "pi / 2"] by simp_all

text \<open>Multiples of an eighth of a turn.\<close>

lemma quarter3: "cos (3 * pi / 4) = - (sqrt 2 / 2)" "sin (3 * pi / 4) = sqrt 2 / 2"
  using angle_sum [of "3 * pi / 4" "pi / 2" "pi / 4"] by (simp_all add: cos_45 sin_45 three_half_pi)

lemma quarter5: "cos (5 * pi / 4) = - (sqrt 2 / 2)" "sin (5 * pi / 4) = - (sqrt 2 / 2)"
  using angle_sum [of "5 * pi / 4" "pi" "pi / 4"] by (simp_all add: cos_45 sin_45 three_half_pi)

lemma quarter7: "cos (7 * pi / 4) = sqrt 2 / 2" "sin (7 * pi / 4) = - (sqrt 2 / 2)"
  using angle_sum [of "7 * pi / 4" "3 * pi / 2" "pi / 4"] by (simp_all add: cos_45 sin_45 three_half_pi)

text \<open>Multiples of a twelfth of a turn.\<close>

lemma third2: "cos (2 * pi / 3) = - (1 / 2)" "sin (2 * pi / 3) = sqrt 3 / 2"
  using angle_sum [of "2 * pi / 3" "pi / 2" "pi / 6"] by (simp_all add: cos_30 sin_30 cos_60 sin_60 three_half_pi)

lemma third4: "cos (4 * pi / 3) = - (1 / 2)" "sin (4 * pi / 3) = - (sqrt 3 / 2)"
  using angle_sum [of "4 * pi / 3" "pi" "pi / 3"] by (simp_all add: cos_30 sin_30 cos_60 sin_60 three_half_pi)

lemma third5: "cos (5 * pi / 3) = 1 / 2" "sin (5 * pi / 3) = - (sqrt 3 / 2)"
  using angle_sum [of "5 * pi / 3" "3 * pi / 2" "pi / 6"] by (simp_all add: cos_30 sin_30 cos_60 sin_60 three_half_pi)

lemma sixth5: "cos (5 * pi / 6) = - (sqrt 3 / 2)" "sin (5 * pi / 6) = 1 / 2"
  using angle_sum [of "5 * pi / 6" "pi / 2" "pi / 3"] by (simp_all add: cos_30 sin_30 cos_60 sin_60 three_half_pi)

lemma sixth7: "cos (7 * pi / 6) = - (sqrt 3 / 2)" "sin (7 * pi / 6) = - (1 / 2)"
  using angle_sum [of "7 * pi / 6" "pi" "pi / 6"] by (simp_all add: cos_30 sin_30 cos_60 sin_60 three_half_pi)

text \<open>Odd multiples of a sixteenth of a turn, by the first.\<close>

lemma eighth3: "cos (3 * pi / 8) = sin (pi / 8)" "sin (3 * pi / 8) = cos (pi / 8)"
  using angle_sum [of "3 * pi / 8" "pi / 2" "- (pi / 8)"] by (simp_all add: three_half_pi)

lemma eighth5: "cos (5 * pi / 8) = - sin (pi / 8)" "sin (5 * pi / 8) = cos (pi / 8)"
  using angle_sum [of "5 * pi / 8" "pi / 2" "pi / 8"] by (simp_all add: three_half_pi)

lemma eighth7: "cos (7 * pi / 8) = - cos (pi / 8)" "sin (7 * pi / 8) = sin (pi / 8)"
  using angle_sum [of "7 * pi / 8" "pi" "- (pi / 8)"] by (simp_all add: three_half_pi)

lemma eighth9: "cos (9 * pi / 8) = - cos (pi / 8)" "sin (9 * pi / 8) = - sin (pi / 8)"
  using angle_sum [of "9 * pi / 8" "pi" "pi / 8"] by (simp_all add: three_half_pi)

lemma eighth11: "cos (11 * pi / 8) = - sin (pi / 8)" "sin (11 * pi / 8) = - cos (pi / 8)"
  using angle_sum [of "11 * pi / 8" "3 * pi / 2" "- (pi / 8)"] by (simp_all add: three_half_pi)

lemma eighth13: "cos (13 * pi / 8) = sin (pi / 8)" "sin (13 * pi / 8) = - cos (pi / 8)"
  using angle_sum [of "13 * pi / 8" "3 * pi / 2" "pi / 8"] by (simp_all add: three_half_pi)

lemma eighth15: "cos (15 * pi / 8) = cos (pi / 8)" "sin (15 * pi / 8) = - sin (pi / 8)"
  using angle_sum [of "15 * pi / 8" "2 * pi" "- (pi / 8)"] by (simp_all add: three_half_pi)

lemmas frame_angles =
  quarter3 quarter5 quarter7 third2 third4 third5 sixth5 sixth7 eighth3 eighth5 eighth7 eighth9 eighth11 eighth13 eighth15 three_half_pi cos_45 sin_45 cos_30 sin_30 cos_60 sin_60

lemma framePoints_QUAD_PLUS: "framePoints QUAD_PLUS g = evenlySpaced 4 (0)"
  by (simp add: framePoints_def evenlySpaced_def upt4 DEG_TO_RAD_def frame_angles)

lemma framePoints_QUAD_X: "framePoints QUAD_X g = evenlySpaced 4 (- (pi / 4))"
  by (simp add: framePoints_def evenlySpaced_def upt4 DEG_TO_RAD_def frame_angles)

lemma framePoints_HEX_PLUS: "framePoints HEX_PLUS g = evenlySpaced 6 (0)"
  by (simp add: framePoints_def evenlySpaced_def upt6 DEG_TO_RAD_def frame_angles)

lemma framePoints_HEX_X: "framePoints HEX_X g = evenlySpaced 6 (- (pi / 6))"
  by (simp add: framePoints_def evenlySpaced_def upt6 DEG_TO_RAD_def frame_angles)

lemma framePoints_OCTO_PLUS: "framePoints OCTO_PLUS g = evenlySpaced 8 (0)"
  by (simp add: framePoints_def evenlySpaced_def upt8 DEG_TO_RAD_def frame_angles)

lemma framePoints_OCTO_X: "framePoints OCTO_X g = evenlySpaced 8 (- (pi / 8))"
  by (simp add: framePoints_def evenlySpaced_def upt8 DEG_TO_RAD_def frame_angles)

lemma evenlySpaced_unit: "list_all (\<lambda>(px, py). px\<^sup>2 + py\<^sup>2 = 1) (evenlySpaced n phi)"
  by (simp add: evenlySpaced_def list_all_iff add.commute [of "(cos _)\<^sup>2"])

lemma length_evenlySpaced: "length (evenlySpaced n phi) = n"
  by (simp add: evenlySpaced_def)

section \<open>Arithmetic of doubles\<close>

lemma Fin_zero [simp]: "(0::dbl) = Fin 0"
  by (simp add: zero_dbl_def)

lemma Fin_one [simp]: "(1::dbl) = Fin 1"
  by (simp add: one_dbl_def)

lemma Fin_zero_plus [simp]: "Fin 0 + v = v" "v + Fin 0 = v"
  using add_0_left [of v] add_0_right [of v] by (simp_all add: zero_dbl_def)

lemma NaN_plus [simp]: "v + NaN = NaN" "NaN + v = NaN"
  by (cases v; simp)+

lemma NaN_times [simp]: "v * NaN = NaN" "NaN * v = NaN"
  by (cases v; simp)+

lemma NaN_divide [simp]: "v / NaN = NaN" "NaN / v = NaN"
  by (cases v; simp)+

lemma NaN_minus [simp]: "v - NaN = NaN" "NaN - v = NaN"
  by (simp_all add: minus_dbl_def)

lemma Fin_minus [simp]: "Fin a - Fin b = Fin (a - b)"
  by (simp add: minus_dbl_def)

lemma Fin_inverse [simp]: "b \<noteq> 0 \<Longrightarrow> inverse (Fin b) = Fin (1 / b)"
  by (simp add: inverse_dbl_def)

lemma one_times [simp]: "Fin 1 * v = v"
  by (cases v; simp)

lemma minus_as_plus: "u - v = u + - (v::dbl)"
  by (simp add: minus_dbl_def)

text \<open>A quotient by a scalar and a product by its inverse are the same double.\<close>

lemma divide_as_times_inverse: "u / v = u * inverse (v::dbl)"
  by (cases u; cases v; simp add: inverse_dbl_def)

lemma sum_Fin: "(\<Sum>i\<in>S. Fin (f i)) = Fin (\<Sum>i\<in>S. f i)"
  by (induction S rule: infinite_finite_induct) simp_all

lemma sum_Fin_zero [simp]: "(\<Sum>i\<in>S. Fin 0) = Fin 0"
  using sum_Fin [of "\<lambda>i. 0" S] by simp

lemma sum_list_Fin: "sum_list (map (\<lambda>v. Fin (f v)) vs) = Fin (sum_list (map f vs))"
  by (induction vs) simp_all


lemma sum_NaN:
  assumes "finite S" "j \<in> S" "f j = NaN"
  shows "(\<Sum>i\<in>S. f i) = (NaN::dbl)"
  using assms by (simp add: sum.remove [of S j])

lemma sum_list_NaN:
  assumes "v \<in> set vs" "f v = NaN"
  shows "sum_list (map f vs) = (NaN::dbl)"
  using assms by (induction vs) auto

lemma not_finite_divide_zero: "\<not> isFinite (v / Fin 0)"
  by (cases v; simp)


section \<open>The inertia loops as sums\<close>

lemma JCalc_pointInertia:
  "quatosToolJCalc J mass x y z = (\<lambda>i j. J i j + pointInertia mass x y z i j)"
  by (simp add: quatosToolJCalc_def pointInertia_def minus_as_plus Let_def)

lemma sum_list_upt: "sum_list (map f [0..<n]) = (\<Sum>k<n. (f k :: dbl))"
  by (simp add: sum_list_distinct_conv_sum_set lessThan_atLeast0)

lemma fold_add:
  "fold (\<lambda>k (J::mat3). (\<lambda>i j. J i j + g k i j)) ks J
   = (\<lambda>i j. J i j + sum_list (map (\<lambda>k. g k i j) ks))"
proof (induction ks arbitrary: J)
  case Nil
  show ?case by simp
next
  case (Cons k ks)
  show ?case by (simp add: Cons add.assoc)
qed

lemma fold_add_upt:
  "fold (\<lambda>k (J::mat3). (\<lambda>i j. J i j + g k i j)) [0..<n] J = (\<lambda>i j. J i j + (\<Sum>k<n. g k i j))"
  by (simp add: fold_add sum_list_upt)

text \<open>The contribution of cell \<open>(a, b, c)\<close> of a cuboid.\<close>

lemma cellJ_pointInertia:
  "cellJ ob cg a b c J =
     (\<lambda>i j. J i j + (case cellPosition ob cg a b c of (px, py, pz) \<Rightarrow>
                         pointInertia (cellMass ob) px py pz i j))"
  by (simp add: cellJ_def JCalc_pointInertia split: prod.split)

lemma ShapeCalc_sum:
  "quatosToolShapeCalc J ob cg =
     (case cellCounts ob of (nx, ny, nz) \<Rightarrow>
        (\<lambda>i j. J i j + (\<Sum>a<nat nx. \<Sum>b<nat ny. \<Sum>c<nat nz.
           (case cellPosition ob cg a b c of (px, py, pz) \<Rightarrow>
              pointInertia (cellMass ob) px py pz i j))))"
proof -
  obtain nx ny nz where n: "cellCounts ob = (nx, ny, nz)"
    by (cases "cellCounts ob") auto
  define g where "g a b c i j =
    (case cellPosition ob cg a b c of (px, py, pz) \<Rightarrow> pointInertia (cellMass ob) px py pz i j)"
    for a b c i j
  have cell: "cellJ ob cg a b c = (\<lambda>J. (\<lambda>i j. J i j + g a b c i j))" for a b c
    by (rule ext) (simp add: cellJ_pointInertia g_def)
  have inner: "fold (\<lambda>c. cellJ ob cg a b c) [0..<nat nz]
               = (\<lambda>J. (\<lambda>i j. J i j + (\<Sum>c<nat nz. g a b c i j)))" for a b
    by (rule ext) (simp add: cell fold_add_upt)
  have middle: "fold (\<lambda>b. fold (\<lambda>c. cellJ ob cg a b c) [0..<nat nz]) [0..<nat ny]
               = (\<lambda>J. (\<lambda>i j. J i j + (\<Sum>b<nat ny. \<Sum>c<nat nz. g a b c i j)))" for a
    by (rule ext) (simp add: inner fold_add_upt)
  have "quatosToolShapeCalc J ob cg
        = (\<lambda>i j. J i j + (\<Sum>a<nat nx. \<Sum>b<nat ny. \<Sum>c<nat nz. g a b c i j))"
    by (simp add: quatosToolShapeCalc_def n middle fold_add_upt)
  then show ?thesis
    by (simp add: n g_def)
qed

lemma truncInt_floor: "0 \<le> r \<Longrightarrow> truncInt r = \<lfloor>r\<rfloor>"
  by (simp add: truncInt_def)

lemma mul3_expand: "mul3 A B i j = A i 0 * B 0 j + A i 1 * B 1 j + A i 2 * B 2 j"
proof -
  have "{..<3::nat} = {0, 1, 2}" by auto
  then show ?thesis by (simp add: mul3_def add.assoc)
qed

lemma crossMatrix_entries:
  "crossMatrix x y z 0 0 = Fin 0" "crossMatrix x y z 0 1 = - z" "crossMatrix x y z 0 2 = y"
  "crossMatrix x y z 1 0 = z" "crossMatrix x y z 1 1 = Fin 0" "crossMatrix x y z 1 2 = - x"
  "crossMatrix x y z 2 0 = - y" "crossMatrix x y z 2 1 = x" "crossMatrix x y z 2 2 = Fin 0"
  "crossMatrix x y z 0 (Suc 0) = - z" "crossMatrix x y z (Suc 0) 0 = z"
  "crossMatrix x y z (Suc 0) (Suc 0) = Fin 0" "crossMatrix x y z (Suc 0) 2 = - x"
  "crossMatrix x y z 2 (Suc 0) = x"
  by (simp_all add: crossMatrix_def rows3_def eval_nat_numeral)


section \<open>The mass loop as sums\<close>

lemma massLoop_sums:
  "massLoop obs tot (c0, c1, c2) =
     (map (\<lambda>ob. ob\<lparr>objMass := objMass ob / Fin 1000\<rparr>) obs,
      tot + sum_list (map (\<lambda>ob. objMass ob / Fin 1000) obs),
      (c0 + sum_list (map (\<lambda>ob. objMass ob / Fin 1000 * objX ob) obs),
       c1 + sum_list (map (\<lambda>ob. objMass ob / Fin 1000 * objY ob) obs),
       c2 + sum_list (map (\<lambda>ob. objMass ob / Fin 1000 * objZ ob) obs)))"
proof (induction obs arbitrary: tot c0 c1 c2)
  case Nil
  show ?case by simp
next
  case (Cons ob obs)
  show ?case by (simp add: Cons Let_def add.assoc)
qed


lemma offsetCG_sums:
  "offsetCG (quatosToolObjCalc d) =
     (sum_list (map (\<lambda>ob. objMass ob / Fin 1000 * objX ob) (buildObjects d))
        / totalMass (quatosToolObjCalc d),
      sum_list (map (\<lambda>ob. objMass ob / Fin 1000 * objY ob) (buildObjects d))
        / totalMass (quatosToolObjCalc d),
      sum_list (map (\<lambda>ob. objMass ob / Fin 1000 * objZ ob) (buildObjects d))
        / totalMass (quatosToolObjCalc d))"
  by (simp add: quatosToolObjCalc_def massLoop_sums Let_def)

lemma inertiaJ_fold:
  "inertiaJ (quatosToolObjCalc d) =
     fold (objectJ (offsetCG (quatosToolObjCalc d)))
       (map (\<lambda>ob. ob\<lparr>objMass := objMass ob / Fin 1000\<rparr>) (buildObjects d)) zero3"
  by (simp add: quatosToolObjCalc_def massLoop_sums Let_def)

lemma objectsCount_eq:
  "objectsCount (quatosToolObjCalc d) = 3 * numMotors d + length (cubes d)"
proof -
  have "length (concat (map (\<lambda>i. [motorObject d i, escObject d i, armObject d i]) [0..<n]))
        = 3 * n" for n
    by (induction n) simp_all
  then show ?thesis
    by (simp add: quatosToolObjCalc_def massLoop_sums Let_def buildObjects_def)
qed

lemma escObject_in_objects: "i < numMotors d \<Longrightarrow> escObject d i \<in> set (buildObjects d)"
  by (auto simp add: buildObjects_def)

lemma motorObject_in_objects: "i < numMotors d \<Longrightarrow> motorObject d i \<in> set (buildObjects d)"
  by (auto simp add: buildObjects_def)

section \<open>A motor at the origin of a custom frame\<close>

lemma escObject_origin:
  assumes "craftType d = CUSTOM" "frameX d ! i = 0" "frameY d ! i = 0"
  shows "objX (escObject d i) = NaN" "objY (escObject d i) = NaN"
  using assms
  by (simp_all add: escObject_def calcFrameX_def calcFrameY_def pointObject_def Let_def)

lemma offsetCG_origin:
  assumes "craftType d = CUSTOM" "i < numMotors d" "frameX d ! i = 0" "frameY d ! i = 0"
  shows "fst (offsetCG (quatosToolObjCalc d)) = NaN"
    and "fst (snd (offsetCG (quatosToolObjCalc d))) = NaN"
proof -
  have "sum_list (map (\<lambda>ob. objMass ob / Fin 1000 * objX ob) (buildObjects d)) = NaN"
    using assms
    by (intro sum_list_NaN [of "escObject d i"]) (simp_all add: escObject_in_objects escObject_origin)
  then show "fst (offsetCG (quatosToolObjCalc d)) = NaN"
    by (simp add: offsetCG_sums)
  have "sum_list (map (\<lambda>ob. objMass ob / Fin 1000 * objY ob) (buildObjects d)) = NaN"
    using assms
    by (intro sum_list_NaN [of "escObject d i"]) (simp_all add: escObject_in_objects escObject_origin)
  then show "fst (snd (offsetCG (quatosToolObjCalc d))) = NaN"
    by (simp add: offsetCG_sums)
qed

text \<open>Once the centre of gravity is not a number, neither is any entry of \<open>J\<close>.\<close>

lemma uminus_NaN [simp]: "- NaN = (NaN::dbl)"
  by simp

lemma mul3_cross_NaN:
  assumes "i < 3" "j < 3"
  shows "mul3 (crossMatrix NaN NaN z) (crossMatrix NaN NaN z) i j = NaN"
proof -
  have "i = 0 \<or> i = 1 \<or> i = 2" "j = 0 \<or> j = 1 \<or> j = 2"
    using assms by auto
  then show ?thesis
    by (auto simp add: mul3_expand crossMatrix_entries)
qed

lemma pointInertia_NaN:
  assumes "i < 3" "j < 3"
  shows "pointInertia mass NaN NaN z i j = NaN"
  using assms by (simp add: pointInertia_def mul3_cross_NaN)

lemma objectJ_keeps_NaN:
  assumes "J i j = NaN"
  shows "objectJ cg ob J i j = NaN"
proof (cases "objDimX ob \<noteq> 0 \<and> objDimY ob \<noteq> 0 \<and> objDimZ ob \<noteq> 0")
  case True
  then show ?thesis
    using assms by (simp add: objectJ_def ShapeCalc_sum split: prod.split)
next
  case False
  then show ?thesis
    using assms by (cases cg) (auto simp add: objectJ_def JCalc_pointInertia)
qed

lemma fold_objectJ_keeps_NaN:
  assumes "J i j = NaN"
  shows "fold (objectJ cg) obs J i j = NaN"
  using assms by (induction obs arbitrary: J) (simp_all add: objectJ_keeps_NaN)

lemma objectJ_point_NaN:
  assumes "objDimX ob = 0" "i < 3" "j < 3"
  shows "objectJ (NaN, NaN, cz) ob J i j = NaN"
  using assms by (simp add: objectJ_def JCalc_pointInertia pointInertia_NaN)

lemma inertiaJ_origin:
  assumes "craftType d = CUSTOM" "k < numMotors d" "frameX d ! k = 0" "frameY d ! k = 0"
    and "i < 3" "j < 3"
  shows "inertiaJ (quatosToolObjCalc d) i j = NaN"
proof -
  obtain cz where cg: "offsetCG (quatosToolObjCalc d) = (NaN, NaN, cz)"
    using offsetCG_origin [OF assms(1-4)] by (cases "offsetCG (quatosToolObjCalc d)") auto
  have "0 < numMotors d" using assms(2) by simp
  then have "[0..<numMotors d] = 0 # [1..<numMotors d]"
    by (simp add: upt_conv_Cons)
  then obtain obs where objs: "buildObjects d = motorObject d 0 # obs"
    by (simp add: buildObjects_def)
  have dim: "objDimX ((motorObject d 0)\<lparr>objMass := objMass (motorObject d 0) / Fin 1000\<rparr>) = 0"
    by (simp add: motorObject_def pointObject_def Let_def)
  show ?thesis
    using assms(5,6) dim
    by (simp add: inertiaJ_fold cg objs fold_objectJ_keeps_NaN objectJ_point_NaN)
qed


section \<open>Sizes of the mixer matrices\<close>

lemma solveSystem_ncols [simp]: "ncols (solveSystem f A B) = ncols B"
  by (simp add: solveSystem_def matMul_def)

lemma targets_ncols [simp]: "ncols attitudeTarget = 1" "ncols (throttleTarget n) = 1"
  by (simp_all add: attitudeTarget_def throttleTarget_def colVector_def)

lemma mixPD_ncols [simp]: "ncols (mixPD (quatosToolCalc f d)) = 3"
  by (simp add: quatosToolCalc_def Let_def hcat_def)

lemma mixTHROT_ncols [simp]: "ncols (mixTHROT (quatosToolCalc f d)) = 1"
  by (simp add: quatosToolCalc_def Let_def)

lemma mixM_ncols [simp]: "ncols (mixM (quatosToolCalc f d)) = numMotors d"
  by (simp add: quatosToolCalc_def Let_def torqueMatrix_def fromRows_def)

lemma mixMt_eq:
  "mixMt (quatosToolCalc f d)
   = calcMt (mixTHROT (quatosToolCalc f d)) (mixPD (quatosToolCalc f d)) (mixM (quatosToolCalc f d))"
  by (simp add: quatosToolCalc_def Let_def)

lemma mixPID_eq: "mixPID (quatosToolCalc f d) = calcPID (mixMt (quatosToolCalc f d))"
  by (simp add: quatosToolCalc_def Let_def)

section \<open>A centre of gravity that is not a number, in the mixer\<close>

lemma sum_all_NaN:
  fixes n :: nat
  assumes "0 < n" "\<And>k. k < n \<Longrightarrow> g k = NaN"
  shows "(\<Sum>k<n. g k) = (NaN::dbl)"
  using assms by (intro sum_NaN [of _ 0]) simp_all

lemma det3_NaN:
  assumes "\<And>j. a 0 j = NaN"
  shows "det3 a = NaN"
  unfolding det3_def using assms by (intro sum_all_NaN) simp_all

lemma calcMt_NaN:
  assumes "0 < ncols M" "ncols PD = 3" "ncols THROT = 1" "\<And>k. coeff M 0 k = NaN" "1 \<le> c"
  shows "coeff (calcMt THROT PD M) j c = NaN"
proof -
  have "coeff (matMul M PD) 0 l = NaN" for l
    using assms(1,4) by (simp add: matMul_def sum_all_NaN)
  then have "det3 (coeff (matMul M PD)) = NaN"
    by (rule det3_NaN)
  then have "coeff (matInverse (matMul M PD)) l b = NaN" for l b
    by (simp add: matInverse_def)
  then have "coeff (matMul PD (matInverse (matMul M PD))) j b = NaN" for b
    using assms(2) by (simp add: matMul_def sum_all_NaN)
  then show ?thesis
    using assms(3,5) by (simp add: calcMt_def hcat_def)
qed

lemma calcPID_NaN: "coeff Mt j c = NaN \<Longrightarrow> coeff (calcPID Mt) j c = NaN"
  by (simp add: calcPID_def)

lemma mixMotor_NaN:
  assumes "fst (offsetCG (quatosToolObjCalc d)) = NaN"
    and "fst (snd (offsetCG (quatosToolObjCalc d))) = NaN"
  shows "mixMotorX (quatosToolCalc f d) j = NaN" "mixMotorY (quatosToolCalc f d) j = NaN"
    and "coeff (mixM (quatosToolCalc f d)) 0 j = NaN"
    and "coeff (mixM (quatosToolCalc f d)) 1 j = NaN"
  using assms
  by (simp_all add: quatosToolCalc_def Let_def calcMotorX_def calcMotorY_def
      torqueMatrix_def fromRows_def neg_def)


section \<open>Total mass and the finite centre of gravity\<close>













section \<open>The largest coefficient of a finite vector\<close>

lemma maxCoeff_Suc:
  "maxCoeff (Suc (Suc k)) v
   = (if dless (maxCoeff (Suc k) v) (v (Suc k)) then v (Suc k) else maxCoeff (Suc k) v)"
  by (simp add: maxCoeff_def)

lemma maxCoeff_Fin:
  "maxCoeff (Suc k) (\<lambda>i. Fin (g i)) = Fin (Max (g ` {..k}))"
proof (induction k)
  case 0
  show ?case by (simp add: maxCoeff_def)
next
  case (Suc k)
  define mk where "mk = Max (g ` {..k})"
  have "{..Suc k} = insert (Suc k) {..k}" by auto
  then have "Max (g ` {..Suc k}) = max (g (Suc k)) mk"
    by (simp add: mk_def)
  moreover have "maxCoeff (Suc k) (\<lambda>i. Fin (g i)) = Fin mk"
    using Suc by (simp add: mk_def)
  ultimately show ?case
    by (simp add: maxCoeff_Suc max_def)
qed

lemma maxCoeff_cong:
  assumes "0 < n" "\<And>i. i < n \<Longrightarrow> v i = w i"
  shows "maxCoeff n v = maxCoeff n w"
proof -
  have "fold (\<lambda>i res. if dless res (v i) then v i else res) ks r
        = fold (\<lambda>i res. if dless res (w i) then w i else res) ks r"
    if "\<And>i. i \<in> set ks \<Longrightarrow> i < n" for ks r
    using that
  proof (induction ks arbitrary: r)
    case Nil
    show ?case by simp
  next
    case (Cons i ks)
    then have "v i = w i" using assms(2) by simp
    with Cons show ?case by simp
  qed
  from this [of "[1..<n]" "w 0"]
  have "fold (\<lambda>i res. if dless res (v i) then v i else res) [1..<n] (w 0)
        = fold (\<lambda>i res. if dless res (w i) then w i else res) [1..<n] (w 0)"
    by simp
  moreover have "v 0 = w 0" using assms by simp
  ultimately show ?thesis
    by (simp add: maxCoeff_def)
qed

lemma maxCoeff_Fin_lessThan:
  assumes "0 < n" "\<And>i. i < n \<Longrightarrow> v i = Fin (g i)"
  shows "maxCoeff n v = Fin (Max (g ` {..<n}))"
proof -
  obtain k where n: "n = Suc k" using assms(1) by (cases n) auto
  have "maxCoeff n v = maxCoeff n (\<lambda>i. Fin (g i))"
    using assms by (rule maxCoeff_cong)
  then show ?thesis
    by (simp add: n maxCoeff_Fin lessThan_Suc_atMost)
qed


section \<open>The inverse of a finite 3 by 3 matrix\<close>

lemma lessThan_3: "{..<3::nat} = {0, 1, 2}"
  by auto

lemma realOf_finite: "isFinite v \<Longrightarrow> v = Fin (realOf v)"
  by (cases v) simp_all

lemma cofactor3_Fin:
  assumes "\<And>i j. i < 3 \<Longrightarrow> j < 3 \<Longrightarrow> A i j = Fin (b i j)"
  shows "cofactor3 A i j = Fin (realCofactor3 b i j)"
  by (simp add: cofactor3_def realCofactor3_def assms)

lemma det3_Fin:
  assumes "\<And>i j. i < 3 \<Longrightarrow> j < 3 \<Longrightarrow> A i j = Fin (b i j)"
  shows "det3 A = Fin (realDet3 b)"
proof -
  have "(\<Sum>j<3. A 0 j * cofactor3 A 0 j) = (\<Sum>j<3. Fin (b 0 j * realCofactor3 b 0 j))"
    by (intro sum.cong refl) (simp add: assms cofactor3_Fin [OF assms])
  then show ?thesis
    by (simp add: det3_def realDet3_def sum_Fin)
qed

text \<open>The expansion of the determinant along a row, and along a row with another row.\<close>

lemma real_laplace:
  assumes "i < 3" "c < 3"
  shows "(\<Sum>l<3. b i l * realCofactor3 b c l) = (if i = c then realDet3 b else 0)"
proof -
  have "i = 0 \<or> i = 1 \<or> i = 2" "c = 0 \<or> c = 1 \<or> c = 2"
    using assms by auto
  then show ?thesis
    by (auto simp add: lessThan_3 realCofactor3_def realDet3_def numeral_2_eq_2 algebra_simps)
qed

lemma matMul_Fin:
  assumes "\<And>k. k < ncols A \<Longrightarrow> coeff A i k = Fin (a k)"
    and "\<And>k. k < ncols A \<Longrightarrow> coeff B k j = Fin (b k)"
  shows "coeff (matMul A B) i j = Fin (\<Sum>k<ncols A. a k * b k)"
proof -
  have "(\<Sum>k<ncols A. coeff A i k * coeff B k j) = (\<Sum>k<ncols A. Fin (a k * b k))"
    by (intro sum.cong refl) (simp add: assms)
  then show ?thesis
    by (simp add: matMul_def sum_Fin)
qed


section \<open>The correction step\<close>

lemma not_finite_plus: "\<not> isFinite u \<Longrightarrow> \<not> isFinite (u + v)" "\<not> isFinite u \<Longrightarrow> \<not> isFinite (v + u)"
  by (cases u; cases v; simp)+

lemma not_finite_times: "\<not> isFinite u \<Longrightarrow> \<not> isFinite (v * u)" "\<not> isFinite u \<Longrightarrow> \<not> isFinite (u * v)"
  by (cases u; cases v; simp)+

lemma not_finite_divide: "\<not> isFinite u \<Longrightarrow> \<not> isFinite (u / v)"
  by (cases u; cases v; simp)

lemma not_finite_sum:
  assumes "finite S" "k \<in> S" "\<not> isFinite (g k)"
  shows "\<not> isFinite (\<Sum>i\<in>S. g i)"
  using assms by (simp add: sum.remove [of S k] not_finite_plus)

lemma calcMt_throttle:
  assumes "ncols THROT = 1"
  shows "coeff (calcMt THROT PD M) j 0 = coeff THROT j 0"
  using assms by (simp add: calcMt_def hcat_def)

lemma calcMt_attitude:
  assumes "ncols THROT = 1"
  shows "coeff (calcMt THROT PD M) j (c + 1)
         = (\<Sum>l<ncols PD. coeff PD j l
              * (cofactor3 (coeff (matMul M PD)) c l / det3 (coeff (matMul M PD))))"
  using assms by (simp add: calcMt_def hcat_def matMul_def matInverse_def)

lemma calcMt_singular:
  assumes "ncols THROT = 1" "ncols PD = 3" "det3 (coeff (matMul M PD)) = Fin 0" "1 \<le> c"
  shows "\<not> isFinite (coeff (calcMt THROT PD M) j c)"
proof -
  obtain c' where c: "c = c' + 1"
    using assms(4) by (metis add.commute le_Suc_ex plus_1_eq_Suc Suc_eq_plus1)
  have "\<not> isFinite (coeff PD j 0
          * (cofactor3 (coeff (matMul M PD)) c' 0 / det3 (coeff (matMul M PD))))"
    by (simp add: assms(3) not_finite_times not_finite_divide_zero)
  then have "\<not> isFinite (\<Sum>l<ncols PD. coeff PD j l
              * (cofactor3 (coeff (matMul M PD)) c' l / det3 (coeff (matMul M PD))))"
    using assms(2) by (intro not_finite_sum [of _ 0]) simp_all
  then show ?thesis
    by (simp add: c calcMt_attitude [OF assms(1)] del: One_nat_def)
qed

lemma calcPID_not_finite:
  "\<not> isFinite (coeff Mt j c) \<Longrightarrow> \<not> isFinite (coeff (calcPID Mt) j c)"
  by (simp add: calcPID_def not_finite_times not_finite_divide)

text \<open>With finite factors and a nonzero determinant the correction decouples.\<close>

lemma calcMt_decouples:
  assumes T: "ncols THROT = 1" and P: "ncols PD = 3"
    and finM: "\<And>i k. i < 3 \<Longrightarrow> k < ncols M \<Longrightarrow> isFinite (coeff M i k)"
    and finPD: "\<And>k l. k < ncols M \<Longrightarrow> l < 3 \<Longrightarrow> isFinite (coeff PD k l)"
    and det: "det3 (coeff (matMul M PD)) \<noteq> Fin 0"
    and i: "i < 3" and c: "c < 3"
  shows "coeff (matMul M (attitudeColumns (calcMt THROT PD M))) i c
         = (if i = c then Fin 1 else Fin 0)"
proof -
  define mr where "mr i k = realOf (coeff M i k)" for i k
  define p where "p k l = realOf (coeff PD k l)" for k l
  define b where "b i l = (\<Sum>k<ncols M. mr i k * p k l)" for i l
  have M: "coeff M i k = Fin (mr i k)" if "i < 3" "k < ncols M" for i k
    using finM [OF that] by (simp add: mr_def realOf_finite)
  have PD: "coeff PD k l = Fin (p k l)" if "k < ncols M" "l < 3" for k l
    using finPD [OF that] by (simp add: p_def realOf_finite)
  have MP: "coeff (matMul M PD) i l = Fin (b i l)" if "i < 3" "l < 3" for i l
    unfolding b_def using that by (intro matMul_Fin) (simp_all add: M PD)
  have d: "det3 (coeff (matMul M PD)) = Fin (realDet3 b)"
    by (rule det3_Fin) (rule MP)
  with det have nz: "realDet3 b \<noteq> 0" by simp
  have cof: "cofactor3 (coeff (matMul M PD)) c l = Fin (realCofactor3 b c l)" for l
    by (rule cofactor3_Fin) (rule MP)
  have att: "coeff (attitudeColumns (calcMt THROT PD M)) k c
             = Fin (\<Sum>l<3. p k l * (realCofactor3 b c l / realDet3 b))" if "k < ncols M" for k
  proof -
    have "(\<Sum>l<ncols PD. coeff PD k l
              * (cofactor3 (coeff (matMul M PD)) c l / det3 (coeff (matMul M PD))))
          = (\<Sum>l<3. Fin (p k l * (realCofactor3 b c l / realDet3 b)))"
      unfolding P using that nz by (intro sum.cong refl) (simp add: PD cof d)
    then show ?thesis
      by (simp add: attitudeColumns_def calcMt_attitude [OF T] sum_Fin del: One_nat_def)
  qed
  have "coeff (matMul M (attitudeColumns (calcMt THROT PD M))) i c
        = Fin (\<Sum>k<ncols M. mr i k * (\<Sum>l<3. p k l * (realCofactor3 b c l / realDet3 b)))"
    using i by (intro matMul_Fin) (simp_all add: M att)
  also have "(\<Sum>k<ncols M. mr i k * (\<Sum>l<3. p k l * (realCofactor3 b c l / realDet3 b)))
             = (\<Sum>l<3. b i l * (realCofactor3 b c l / realDet3 b))"
  proof -
    define q where "q l = realCofactor3 b c l / realDet3 b" for l
    have "(\<Sum>k<ncols M. mr i k * (\<Sum>l<3. p k l * q l))
          = (\<Sum>k<ncols M. \<Sum>l<3. mr i k * p k l * q l)"
      by (simp add: sum_distrib_left mult.assoc)
    also have "\<dots> = (\<Sum>l<3. \<Sum>k<ncols M. mr i k * p k l * q l)"
      by (rule sum.swap)
    also have "\<dots> = (\<Sum>l<3. b i l * q l)"
      by (simp add: b_def sum_distrib_right)
    finally show ?thesis
      by (simp add: q_def)
  qed
  also have "\<dots> = (\<Sum>l<3. b i l * realCofactor3 b c l) / realDet3 b"
    by (simp add: sum_divide_distrib)
  also have "\<dots> = (if i = c then 1 else 0)"
    using nz by (simp add: real_laplace [OF i c])
  finally show ?thesis by simp
qed


section \<open>Bits of the packed words\<close>

lemma bit_portLoop:
  "bit (portLoop ps off base k acc) m \<longleftrightarrow>
     bit acc m \<or>
     (\<exists>j<k. base + 4 * j \<le> m \<and> m < 64 \<and> bit (ps ! (j + off)) (m - (base + 4 * j)))"
proof (induction k arbitrary: acc)
  case 0
  then show ?case by simp
next
  case (Suc k)
  show ?case
    by (auto simp add: Suc bit_simps less_Suc_eq)
qed

lemma motFrame_count: "nat (min 5 (int n - 1) + 1) = min 6 n"
  by auto

lemma motFrameH_count: "6 < n \<Longrightarrow> nat (min 7 (int n - 7) + 1) = min 8 (n - 6)"
  by auto

lemma bit_motFrame:
  "bit (motFrame ps cid) m \<longleftrightarrow> m < 32 \<and>
     (bit cid m \<or>
      (\<exists>j<min 6 (length ps). 8 + 4 * j \<le> m \<and> bit (ps ! (j + 0)) (m - (8 + 4 * j))))"
  unfolding motFrame_def motFrame_count
  by (auto simp add: bit_simps bit_portLoop)

lemma bit_motFrameH:
  assumes "6 < length ps"
  shows "bit (the (motFrameH ps)) m \<longleftrightarrow> m < 32 \<and>
     (False \<or>
      (\<exists>j<min 8 (length ps - 6). 0 + 4 * j \<le> m \<and> bit (ps ! (j + 6)) (m - (0 + 4 * j))))"
  using assms unfolding motFrameH_def
  by (auto simp add: motFrameH_count bit_simps bit_portLoop)

lemma bit_nat_small: "p < 2 ^ k \<Longrightarrow> k \<le> m \<Longrightarrow> \<not> bit (p::nat) m"
  by (metis bit_take_bit_iff leD take_bit_nat_eq_self)

lemma bit_int_small: "0 \<le> p \<Longrightarrow> p < 2 ^ k \<Longrightarrow> k \<le> m \<Longrightarrow> \<not> bit (p::int) m"
  by (metis bit_take_bit_iff leD take_bit_int_eq_self)

lemma port_small: "\<forall>p\<in>set ps. p \<le> 15 \<Longrightarrow> i < length ps \<Longrightarrow> ps ! i < (16::nat)"
  using nth_mem [of i ps] by fastforce

lemma mask4: "(0xF :: 32 word) = mask 4"
  by (simp add: mask_eq_exp_minus_1)

lemma mask8: "(0xFF :: 32 word) = mask 8"
  by (simp add: mask_eq_exp_minus_1)

text \<open>
  A word whose bits are those of 4-bit fields laid side by side from bit \<open>base\<close> on (and
  of some \<open>C\<close> below \<open>base\<close>) gives each field back.
\<close>

lemma decodeField_packed:
  fixes W :: "32 word"
  assumes W: "\<And>m. bit W m \<longleftrightarrow> m < 32 \<and>
            (C m \<or> (\<exists>i<k. base + 4 * i \<le> m \<and> bit (ps ! (i + off)) (m - (base + 4 * i))))"
    and C: "\<And>m. base \<le> m \<Longrightarrow> \<not> C m"
    and p: "\<And>i. i < k \<Longrightarrow> ps ! (i + off) < 16"
    and j: "j < k" "base + 4 * j + 4 \<le> 32"
  shows "decodeField (base + 4 * j) W = ps ! (j + off)"
proof -
  have small: "\<not> bit (ps ! (i + off)) m" if "i < k" "4 \<le> m" for i m
    using bit_nat_small [of "ps ! (i + off)" 4 m] p that by simp
  have "drop_bit (base + 4 * j) W AND 0xF = (word_of_nat (ps ! (j + off)) :: 32 word)"
  proof (rule bit_word_eqI)
    fix m assume m: "m < LENGTH(32)"
    show "bit (drop_bit (base + 4 * j) W AND 0xF) m
          = bit (word_of_nat (ps ! (j + off)) :: 32 word) m"
    proof (cases "m < 4")
      case False
      then show ?thesis using small [of j m] j by (simp add: mask4 bit_simps)
    next
      case True
      have "(\<exists>i<k. base + 4 * i \<le> base + 4 * j + m
                \<and> bit (ps ! (i + off)) (base + 4 * j + m - (base + 4 * i)))
            \<longleftrightarrow> bit (ps ! (j + off)) m" (is "?L \<longleftrightarrow> ?R")
      proof
        assume ?L
        then obtain i where i: "i < k" "base + 4 * i \<le> base + 4 * j + m"
          "bit (ps ! (i + off)) (base + 4 * j + m - (base + 4 * i))" by blast
        have "\<not> 4 \<le> base + 4 * j + m - (base + 4 * i)" using small [of i] i by auto
        with i True have "i = j" by arith
        with i show ?R by simp
      next
        assume ?R then show ?L using j by (intro exI [of _ j]) simp
      qed
      moreover have "\<not> C (base + 4 * j + m)" using C by simp
      moreover have "base + 4 * j + m < 32" using j True by simp
      ultimately show ?thesis using True m
        by (simp add: mask4 bit_simps W ac_simps)
    qed
  qed
  then have "decodeField (base + 4 * j) W = unat (word_of_nat (ps ! (j + off)) :: 32 word)"
    by (simp add: decodeField_def)
  also have "\<dots> = ps ! (j + off)"
    using p [OF j(1)] by (simp add: unat_of_nat)
  finally show ?thesis .
qed

lemma decodePort_low:
  assumes "j < length ps" "j < 6" "\<forall>p\<in>set ps. p \<le> 15" "0 \<le> cid" "cid \<le> 255"
  shows "decodePort (motFrame ps cid) wH j = ps ! j"
proof -
  have "decodeField (8 + 4 * j) (motFrame ps cid) = ps ! (j + 0)"
  proof (rule decodeField_packed [where C = "bit cid" and k = "min 6 (length ps)"])
    show "bit (motFrame ps cid) m \<longleftrightarrow> m < 32 \<and>
            (bit cid m \<or> (\<exists>i<min 6 (length ps). 8 + 4 * i \<le> m
               \<and> bit (ps ! (i + 0)) (m - (8 + 4 * i))))" for m
      by (rule bit_motFrame)
    show "\<not> bit cid m" if "8 \<le> m" for m
      using bit_int_small [of cid 8 m] assms that by simp
    show "ps ! (i + 0) < 16" if "i < min 6 (length ps)" for i
      using assms(3) that by (intro port_small) auto
    show "j < min 6 (length ps)" using assms by simp
    show "8 + 4 * j + 4 \<le> 32" using assms by simp
  qed
  with assms show ?thesis by (simp add: decodePort_def)
qed

lemma decodePort_high:
  assumes "j < length ps" "6 \<le> j" "length ps \<le> 14" "\<forall>p\<in>set ps. p \<le> 15"
  shows "decodePort w (motFrameH ps) j = ps ! j"
proof -
  have len: "6 < length ps" using assms by simp
  have "decodeField (0 + 4 * (j - 6)) (the (motFrameH ps)) = ps ! ((j - 6) + 6)"
  proof (rule decodeField_packed [where C = "\<lambda>_. False" and k = "min 8 (length ps - 6)"])
    show "bit (the (motFrameH ps)) m \<longleftrightarrow> m < 32 \<and>
            (False \<or> (\<exists>i<min 8 (length ps - 6). 0 + 4 * i \<le> m
               \<and> bit (ps ! (i + 6)) (m - (0 + 4 * i))))" for m
      by (rule bit_motFrameH [OF len])
    show "ps ! (i + 6) < 16" if "i < min 8 (length ps - 6)" for i
      using assms(4) that by (intro port_small) auto
    show "j - 6 < min 8 (length ps - 6)" using assms by auto
    show "0 + 4 * (j - 6) + 4 \<le> 32" using assms by simp
  qed simp
  moreover obtain h where "motFrameH ps = Some h"
    using len by (simp add: motFrameH_def)
  ultimately show ?thesis using assms
    by (simp add: decodePort_def)
qed

lemma decodeConfigId_motFrame:
  assumes "\<forall>p\<in>set ps. p \<le> 15" "0 \<le> cid" "cid \<le> 255"
  shows "decodeConfigId (motFrame ps cid) = cid"
proof -
  have "motFrame ps cid AND 0xFF = (word_of_int cid :: 32 word)"
  proof (rule bit_word_eqI)
    fix m assume "m < LENGTH(32)"
    then show "bit (motFrame ps cid AND 0xFF) m = bit (word_of_int cid :: 32 word) m"
      using bit_int_small [of cid 8 m] assms
      by (cases "m < 8") (auto simp add: mask8 bit_simps bit_motFrame)
  qed
  then have "decodeConfigId (motFrame ps cid) = uint (word_of_int cid :: 32 word)"
    by (simp add: decodeConfigId_def)
  also have "\<dots> = cid"
    using assms by (simp add: uint_word_of_int)
  finally show ?thesis .
qed


text \<open>
  C4. For every standard topology the resolved geometry is the list of \<open>n\<close> points of the
  unit circle that starts at the topology's phase and advances by \<open>2 pi / n\<close> per motor
  index, with \<open>n\<close> 4, 6 or 8; every point has norm 1; and \<^verbatim>\<open>quad_plus\<close> is
  \<open>(1,0), (0,1), (-1,0), (0,-1)\<close> in this order. The table entries are taken as the real
  numbers they denote.
\<close>

theorem frame_geometry_standard:
  assumes "t \<noteq> CUSTOM"
  shows "framePoints t g = evenlySpaced (motorCount t m) (startPhase t)
       \<and> length (framePoints t g) = motorCount t m
       \<and> list_all (\<lambda>(px, py). px\<^sup>2 + py\<^sup>2 = 1) (framePoints t g)
       \<and> motorCount t m \<in> {4, 6, 8}
       \<and> framePoints QUAD_PLUS g = [(1, 0), (0, 1), (- 1, 0), (0, - 1)]"
proof -
  have pts: "framePoints t g = evenlySpaced (motorCount t m) (startPhase t)"
    using assms
    by (cases t)
      (simp_all add: framePoints_QUAD_PLUS framePoints_QUAD_X framePoints_HEX_PLUS
        framePoints_HEX_X framePoints_OCTO_PLUS framePoints_OCTO_X)
  have cnt: "motorCount t m \<in> {4, 6, 8}"
    using assms by (cases t) simp_all
  have quad: "framePoints QUAD_PLUS g = [(1, 0), (0, 1), (- 1, 0), (0, - 1)]"
    by (simp add: framePoints_def)
  show ?thesis
    unfolding pts using quad cnt by (simp add: evenlySpaced_unit length_evenlySpaced)
qed

theorem frame_geometry_standard_witness:
  "HEX_X \<noteq> CUSTOM
   \<and> framePoints HEX_X ([], []) = evenlySpaced 6 (- (pi / 6))
   \<and> length (framePoints HEX_X ([], [])) = 6"
  using frame_geometry_standard [of HEX_X "([], [])" 0]
  by (simp add: length_evenlySpaced)






text \<open>
  C10. In a custom frame with a motor placed at \<open>(0, 0)\<close> the ESC of that motor gets the
  coordinates \<open>0 / 0\<close>, which are not numbers. They make the \<open>x\<close> and \<open>y\<close> of the centre of
  gravity, every entry of the inertia tensor, every motor coordinate, the roll and pitch
  rows of \<^verbatim>\<open>M\<close> and the three attitude columns of \<^verbatim>\<open>Mt\<close> and \<^verbatim>\<open>PID\<close> not numbers
  either, whatever the decomposition returns; and the program ends with status 0.
\<close>

theorem origin_motor_not_a_number:
  assumes "validCraft d" "craftType d = CUSTOM"
    and "i < numMotors d" "frameX d ! i = 0" "frameY d ! i = 0"
  shows "objX (escObject d i) = NaN \<and> objY (escObject d i) = NaN
       \<and> fst (offsetCG (quatosToolObjCalc d)) = NaN
       \<and> fst (snd (offsetCG (quatosToolObjCalc d))) = NaN
       \<and> (\<forall>a<3. \<forall>b<3. inertiaJ (quatosToolObjCalc d) a b = NaN)
       \<and> (\<forall>j. mixMotorX (quatosToolCalc jacobiSvd d) j = NaN
              \<and> mixMotorY (quatosToolCalc jacobiSvd d) j = NaN
              \<and> coeff (mixM (quatosToolCalc jacobiSvd d)) 0 j = NaN
              \<and> coeff (mixM (quatosToolCalc jacobiSvd d)) 1 j = NaN)
       \<and> (\<forall>j c. 1 \<le> c \<longrightarrow> coeff (mixMt (quatosToolCalc jacobiSvd d)) j c = NaN
                          \<and> coeff (mixPID (quatosToolCalc jacobiSvd d)) j c = NaN)
       \<and> quatosMain jacobiSvd d = (0, Some (quatosToolCalc jacobiSvd d))"
proof -
  note cg = offsetCG_origin [OF assms(2-5)]
  note mx = mixMotor_NaN [OF cg, of jacobiSvd]
  have n: "0 < ncols (mixM (quatosToolCalc jacobiSvd d))"
    using assms(3) by simp
  have mt: "coeff (mixMt (quatosToolCalc jacobiSvd d)) j c = NaN" if "1 \<le> c" for j c
    unfolding mixMt_eq using n that by (intro calcMt_NaN) (simp_all add: mx)
  have pid: "coeff (mixPID (quatosToolCalc jacobiSvd d)) j c = NaN" if "1 \<le> c" for j c
    unfolding mixPID_eq using that by (intro calcPID_NaN mt)
  have esc: "objX (escObject d i) = NaN \<and> objY (escObject d i) = NaN"
    using escObject_origin [OF assms(2,4,5)] by simp
  have J: "\<forall>a<3. \<forall>b<3. inertiaJ (quatosToolObjCalc d) a b = NaN"
    using inertiaJ_origin [OF assms(2-5)] by simp
  have main: "quatosMain jacobiSvd d = (0, Some (quatosToolCalc jacobiSvd d))"
    using assms(1) by (simp add: quatosMain_def)
  show ?thesis
    using esc cg J mx mt pid main by simp
qed

theorem origin_motor_not_a_number_witness:
  "objX (escObject originFrame 0) = NaN
   \<and> fst (offsetCG (quatosToolObjCalc originFrame)) = NaN
   \<and> inertiaJ (quatosToolObjCalc originFrame) 0 0 = NaN
   \<and> coeff (mixM (quatosToolCalc exampleSvd originFrame)) 0 0 = NaN
   \<and> coeff (mixPID (quatosToolCalc exampleSvd originFrame)) 0 1 = NaN
   \<and> quatosMain exampleSvd originFrame = (0, Some (quatosToolCalc exampleSvd originFrame))"
proof -
  have h: "validCraft originFrame" "craftType originFrame = CUSTOM"
    "0 < numMotors originFrame" "frameX originFrame ! 0 = 0" "frameY originFrame ! 0 = 0"
    by (simp_all add: originFrame_def crossFrame_def numMotors_def)
  show ?thesis
    using origin_motor_not_a_number [OF h, of exampleSvd] by simp
qed






text \<open>
  C7. In the result of \<^verbatim>\<open>quatosToolCalc\<close> every rotation sign is the declared one
  times \<open>-1\<close>; every motor coordinate is the frame coordinate (scaled by \<^verbatim>\<open>distMot\<close> in
  a predefined frame) minus the \<open>x\<close> or \<open>y\<close> of the centre of gravity, whose \<open>z\<close> is not
  used; \<^verbatim>\<open>ROLL\<close> is the pseudo-inverse of the 3 by \<open>n\<close> matrix with rows \<^verbatim>\<open>motorX\<close>, ones,
  \<^verbatim>\<open>-motorY\<close> times the target \<open>(0, 0, 1)\<close>, and \<^verbatim>\<open>THROT\<close> is the pseudo-inverse of the 4
  by \<open>n\<close> matrix with rows \<^verbatim>\<open>motorX\<close>, \<^verbatim>\<open>motorY\<close>, \<^verbatim>\<open>propDir\<close>, ones times the target
  \<open>(0, 0, 0, n)\<close>.
\<close>

theorem mixer_systems:
  "mixPropDir (quatosToolCalc jacobiSvd d) j = Fin (propDir d ! j) * Fin (- 1)
   \<and> mixPropDir (quatosToolCalc jacobiSvd d) j = Fin (- (propDir d ! j))
   \<and> mixMotorX (quatosToolCalc jacobiSvd d) j
       = Fin (calcFrameX d ! j * (if craftType d = CUSTOM then 1 else distMot d))
         - fst (offsetCG (quatosToolObjCalc d))
   \<and> mixMotorY (quatosToolCalc jacobiSvd d) j
       = Fin (calcFrameY d ! j * (if craftType d = CUSTOM then 1 else distMot d))
         - fst (snd (offsetCG (quatosToolObjCalc d)))
   \<and> mixROLL (quatosToolCalc jacobiSvd d)
       = matMul (pseudoInverse jacobiSvd
                  (rollSystem (numMotors d) (mixMotorX (quatosToolCalc jacobiSvd d))
                     (mixMotorY (quatosToolCalc jacobiSvd d))) DBL_EPSILON)
                (colVector [Fin 0, Fin 0, Fin 1])
   \<and> mixTHROT (quatosToolCalc jacobiSvd d)
       = matMul (pseudoInverse jacobiSvd
                  (throttleSystem (numMotors d) (mixMotorX (quatosToolCalc jacobiSvd d))
                     (mixMotorY (quatosToolCalc jacobiSvd d))
                     (mixPropDir (quatosToolCalc jacobiSvd d))) DBL_EPSILON)
                (colVector [Fin 0, Fin 0, Fin 0, Fin (real (numMotors d))])
   \<and> nrows (rollSystem n mX mY) = 3 \<and> ncols (rollSystem n mX mY) = n
   \<and> coeff (rollSystem n mX mY) 0 j = mX j
   \<and> coeff (rollSystem n mX mY) 1 j = Fin 1
   \<and> coeff (rollSystem n mX mY) 2 j = - mY j
   \<and> nrows (throttleSystem n mX mY pd) = 4 \<and> ncols (throttleSystem n mX mY pd) = n
   \<and> coeff (throttleSystem n mX mY pd) 0 j = mX j
   \<and> coeff (throttleSystem n mX mY pd) 1 j = mY j
   \<and> coeff (throttleSystem n mX mY pd) 2 j = pd j
   \<and> coeff (throttleSystem n mX mY pd) 3 j = Fin 1"
proof -
  have systems:
    "nrows (rollSystem n mX mY) = 3 \<and> ncols (rollSystem n mX mY) = n
     \<and> coeff (rollSystem n mX mY) 0 j = mX j
     \<and> coeff (rollSystem n mX mY) 1 j = Fin 1
     \<and> coeff (rollSystem n mX mY) 2 j = - mY j
     \<and> nrows (throttleSystem n mX mY pd) = 4 \<and> ncols (throttleSystem n mX mY pd) = n
     \<and> coeff (throttleSystem n mX mY pd) 0 j = mX j
     \<and> coeff (throttleSystem n mX mY pd) 1 j = mY j
     \<and> coeff (throttleSystem n mX mY pd) 2 j = pd j
     \<and> coeff (throttleSystem n mX mY pd) 3 j = Fin 1"
    by (simp add: rollSystem_def throttleSystem_def fromRows_def ones_def neg_def
        eval_nat_numeral)
  have signs: "mixPropDir (quatosToolCalc jacobiSvd d) j = Fin (propDir d ! j) * Fin (- 1)"
    "mixPropDir (quatosToolCalc jacobiSvd d) j = Fin (- (propDir d ! j))"
    by (simp_all add: quatosToolCalc_def Let_def calcPropDir_def)
  have coords: "mixMotorX (quatosToolCalc jacobiSvd d) j
       = Fin (calcFrameX d ! j * (if craftType d = CUSTOM then 1 else distMot d))
         - fst (offsetCG (quatosToolObjCalc d))"
    "mixMotorY (quatosToolCalc jacobiSvd d) j
       = Fin (calcFrameY d ! j * (if craftType d = CUSTOM then 1 else distMot d))
         - fst (snd (offsetCG (quatosToolObjCalc d)))"
    by (simp_all add: quatosToolCalc_def Let_def calcMotorX_def calcMotorY_def)
  have solved: "mixROLL (quatosToolCalc jacobiSvd d)
       = matMul (pseudoInverse jacobiSvd
                  (rollSystem (numMotors d) (mixMotorX (quatosToolCalc jacobiSvd d))
                     (mixMotorY (quatosToolCalc jacobiSvd d))) DBL_EPSILON)
                (colVector [Fin 0, Fin 0, Fin 1])"
    "mixTHROT (quatosToolCalc jacobiSvd d)
       = matMul (pseudoInverse jacobiSvd
                  (throttleSystem (numMotors d) (mixMotorX (quatosToolCalc jacobiSvd d))
                     (mixMotorY (quatosToolCalc jacobiSvd d))
                     (mixPropDir (quatosToolCalc jacobiSvd d))) DBL_EPSILON)
                (colVector [Fin 0, Fin 0, Fin 0, Fin (real (numMotors d))])"
    by (simp_all add: quatosToolCalc_def Let_def solveSystem_def attitudeTarget_def
        throttleTarget_def)
  show ?thesis
    using systems signs coords solved by blast
qed


text \<open>
  C9. The round trip fails on the code. Port 16 is a port of the controller (the output
  loops run over \<^verbatim>\<open>1 .. NUM_PORTS\<close> with \<^verbatim>\<open>NUM_PORTS = 16\<close>), and it does not fit the
  4-bit field the comment of line 1029 gives it: its bit 4 falls on bit 0 of the next
  motor's field. Two hexacopters that differ in the port of motor 1 are written as the
  same \<^verbatim>\<open>DEFAULT_MOT_FRAME\<close> (neither has a second line), no decoder can tell the two
  frames apart, and the documented layout reads ports 0, 3, 1, 4, 5, 6 from the word.
\<close>

theorem portOrder_port16_collision:
  "printedMotFrame [16, 2, 1, 4, 5, 6] 10 = printedMotFrame [16, 3, 1, 4, 5, 6] 10
   \<and> printedMotFrameH [16, 2, 1, 4, 5, 6] = printedMotFrameH [16, 3, 1, 4, 5, 6]
   \<and> decodePorts (length [16, 3, 1, 4, 5, 6 :: nat]) (motFrame [16, 3, 1, 4, 5, 6] 10)
        (motFrameH [16, 3, 1, 4, 5, 6]) = [0, 3, 1, 4, 5, 6]"
proof -
  have w: "motFrame [16, 2, 1, 4, 5, 6] 10 = motFrame [16, 3, 1, 4, 5, 6] 10"
    by code_simp
  have h: "motFrameH [16, 2, 1, 4, 5, 6] = None" "motFrameH [16, 3, 1, 4, 5, 6] = None"
    by (simp_all add: motFrameH_def)
  have d: "decodePorts (length [16, 3, 1, 4, 5, 6 :: nat]) (motFrame [16, 3, 1, 4, 5, 6] 10)
        None = [0, 3, 1, 4, 5, 6]"
    by code_simp
  show ?thesis
    unfolding printedMotFrame_def printedMotFrameH_def w h
    by (intro conjI refl d)
qed

text \<open>
  The same loss without port 16: the word of a frame can be the bit pattern of a NaN,
  and every NaN is printed as \<^verbatim>\<open>nan\<close>. Two hexacopters with ports below 16 that differ
  in the port of motor 3 are both written as \<^verbatim>\<open>nan\<close>.
\<close>

lemma portOrder_nan_collision:
  "printedMotFrame [1, 2, 3, 8, 15, 7] 11 = TextNan False
   \<and> printedMotFrame [1, 2, 3, 9, 15, 7] 11 = TextNan False"
proof -
  have w: "motFrame [1, 2, 3, 8, 15, 7] 11 = 0x7F83210B"
    "motFrame [1, 2, 3, 9, 15, 7] 11 = 0x7F93210B"
    by code_simp+
  have f: "floatOfBits 0x7F83210B = FloatNan False" "floatOfBits 0x7F93210B = FloatNan False"
    by (simp_all add: floatOfBits_def floatExponent_def floatMantissa_def)
  show ?thesis
    unfolding printedMotFrame_def w f by (simp add: printG20_def)
qed

text \<open>
  Where every port fits its field, the two words themselves carry the configuration: for
  a frame of 1 to 14 motors with ports in \<open>0..15\<close> and a \<^verbatim>\<open>configId\<close> in \<open>0..255\<close>, the
  documented layout gives back the \<^verbatim>\<open>configId\<close> and every port from the words.
\<close>

lemma portOrder_words_roundtrip:
  assumes "1 \<le> length ps" "length ps \<le> 14"
    and "\<forall>p\<in>set ps. p \<le> 15"
    and "0 \<le> cid" "cid \<le> 255"
  shows "decodeConfigId (motFrame ps cid) = cid
       \<and> decodePorts (length ps) (motFrame ps cid) (motFrameH ps) = ps"
proof
  show "decodeConfigId (motFrame ps cid) = cid"
    using assms by (simp add: decodeConfigId_motFrame)
  show "decodePorts (length ps) (motFrame ps cid) (motFrameH ps) = ps"
  proof (rule nth_equalityI)
    show "length (decodePorts (length ps) (motFrame ps cid) (motFrameH ps)) = length ps"
      by (simp add: decodePorts_def)
    fix i assume "i < length (decodePorts (length ps) (motFrame ps cid) (motFrameH ps))"
    then have i: "i < length ps" by (simp add: decodePorts_def)
    show "decodePorts (length ps) (motFrame ps cid) (motFrameH ps) ! i = ps ! i"
    proof (cases "i < 6")
      case True
      with i assms show ?thesis by (simp add: decodePorts_def decodePort_low)
    next
      case False
      with i assms show ?thesis by (simp add: decodePorts_def decodePort_high)
    qed
  qed
qed


end
